theory Spec2Isabelle
  imports Complex_Main "HOL-Library.Word"
begin

section \<open>Data model\<close>

text \<open>
  The health-check core of the node monitor (\<^verbatim>\<open>BlockchainHealthCheck\<close>, in
  \<^verbatim>\<open>backend/monitoring/prometheus/exporter.h\<close>) and the alert hub
  (\<^verbatim>\<open>AlertManager\<close>, in \<^verbatim>\<open>backend/monitoring/alerting/manager.cpp\<close>).

  The header \<^verbatim>\<open>blockchain_healthcheck.h\<close>, which declares the structs and the
  client interface, is not among the sources. The shapes below are the ones the function
  bodies use; what only the header could fix is said at each place.
\<close>

text \<open>
  Modelled from the spec: the type of a block height. The declarations of
  \<^verbatim>\<open>eth_blockNumber\<close> and \<^verbatim>\<open>fetchNetworkBlock\<close> are in the absent header; the spec
  gives both as \<^verbatim>\<open>-> uint\<close>, and the repository declares chain quantities as
  \<^verbatim>\<open>uint64_t\<close> (\<^verbatim>\<open>ethereum.hpp\<close>). So a height is a 64-bit word, \<open>-\<close> wraps, and
  the comparison with \<^verbatim>\<open>MAX_BLOCK_LAG\<close> is unsigned.
\<close>

type_synonym u64 = "64 word"

text \<open>
  What a collaborator or an alert handler can throw: an exception derived from
  \<^verbatim>\<open>std::exception\<close> (with its \<^verbatim>\<open>what()\<close>), or any other value. The distinction
  matters to \<^verbatim>\<open>catch (const std::exception&)\<close> in \<^verbatim>\<open>checkBlockSync\<close>.
\<close>

datatype thrown = StdException string | NonStdException

text \<open>
  What leaves a function of the health check: a foreign exception passing through,
  the \<^verbatim>\<open>HealthCheckError\<close> that \<^verbatim>\<open>checkBlockSync\<close> raises, or the
  \<^verbatim>\<open>std::out_of_range\<close> of \<^verbatim>\<open>metrics.at(key)\<close> on a missing key.
\<close>

datatype error = Thrown thrown | HealthCheckError string | OutOfRange string

datatype AlertSeverity = Info | Warning | Critical

text \<open>
  The values an alert carries in \<^verbatim>\<open>details\<close>: a block height, a peer count, or a
  number (a \<^verbatim>\<open>double\<close>, or a value read back from the report's metrics).
  A \<^verbatim>\<open>double\<close> is represented by the rational it denotes. The conversion of the
  64-bit lag to \<^verbatim>\<open>double\<close> rounds (\<open>u64_number\<close> below). The conversions of the peer
  count, of the error count and of the free bytes are written without rounding, which is
  what they are below \<open>2 ^ 53\<close> (for the free space: below 8 PiB).
\<close>

datatype detail = UInt u64 | Count nat | Number rat

record Alert =
  type :: string
  severity :: AlertSeverity
  details :: "(string \<times> detail) list"

text \<open>
  \<^verbatim>\<open>using AlertHandler = std::function<void(const json& alert)>\<close>: a callable that
  returns nothing and may throw. A handler has a name, so that two handlers with the
  same behaviour stay distinct, and a body: \<open>None\<close> when the call returns,
  \<open>Some t\<close> when it throws \<open>t\<close>.
\<close>

datatype AlertHandler = AlertHandler (hname: string) (hcall: "Alert \<Rightarrow> thrown option")

record HealthReport =
  timestamp :: nat
  metrics :: "string \<rightharpoonup> rat"
  overall_ok :: bool

record Config =
  min_peers :: int
  min_disk_gb :: rat
  chaindata_path :: string
  bootstrap_nodes :: "string list"

record PeerInfo =
  isActive :: bool
  protocolVersion :: nat

record PeerStats =
  total :: nat
  active :: nat

record RpcStatus =
  error_count :: nat

record DiskSpaceStatus =
  free_gb :: rat
  critical :: bool

text \<open>
  The answer of \<^verbatim>\<open>executor->execute(request, RPC_TIMEOUT)\<close>, as far as the probe looks
  at it: whether \<^verbatim>\<open>response["error"].isObject()\<close>. A response on which this test itself
  throws is the \<open>Inl\<close> case of \<open>execute\<close>, since the call and the test are inside the same
  \<^verbatim>\<open>try\<close> with \<^verbatim>\<open>catch (...)\<close>.
\<close>

datatype rpc_response = Response (error_isObject: bool)

subsection \<open>External collaborators\<close>

text \<open>
  The node client as one check cycle sees it: each call either throws or returns.
  \<open>ETH_PROTOCOL_VERSION\<close> is a constant of the client library whose value is not in the
  sources; it is a parameter.
\<close>

record EthereumClient =
  eth_blockNumber :: "thrown + u64"
  admin_peers :: "thrown + PeerInfo list"
  execute :: "string \<Rightarrow> thrown + rpc_response"
  admin_addPeer :: "string list \<Rightarrow> thrown option"
  ETH_PROTOCOL_VERSION :: nat

text \<open>
  Everything outside the object that a cycle reads or calls: the client, the result of the
  private helper \<^verbatim>\<open>fetchNetworkBlock\<close> (its body is not in the sources),
  \<^verbatim>\<open>std::filesystem::space(path).free\<close> in bytes (the overload used throws
  \<^verbatim>\<open>filesystem_error\<close> on failure), the helper \<^verbatim>\<open>rotateLogs\<close> (not in the sources
  either) and the system clock.
\<close>

record World =
  client :: EthereumClient
  fetchNetworkBlock :: "thrown + u64"
  fs_space :: "string \<Rightarrow> thrown + nat"
  rotateLogs :: "thrown option"
  now :: nat

subsection \<open>Observable effects\<close>

text \<open>
  The calls a run makes on its collaborators, in order: an alert handed to the hub, a
  handler invoked with an alert, a log rotation, a request to add peers, one interval of
  sleep.
\<close>

datatype event =
    Emitted Alert
  | Invoked AlertHandler Alert
  | RotateLogs
  | AddPeer "string list"
  | Sleep

fun emitted :: "event list \<Rightarrow> Alert list" where
  "emitted [] = []"
| "emitted (Emitted a # evs) = a # emitted evs"
| "emitted (_ # evs) = emitted evs"

fun invoked :: "event list \<Rightarrow> (AlertHandler \<times> Alert) list" where
  "invoked [] = []"
| "invoked (Invoked h a # evs) = (h, a) # invoked evs"
| "invoked (_ # evs) = invoked evs"

fun rotations :: "event list \<Rightarrow> nat" where
  "rotations [] = 0"
| "rotations (RotateLogs # evs) = Suc (rotations evs)"
| "rotations (_ # evs) = rotations evs"

fun addPeers :: "event list \<Rightarrow> string list list" where
  "addPeers [] = []"
| "addPeers (AddPeer ns # evs) = ns # addPeers evs"
| "addPeers (_ # evs) = addPeers evs"

fun sleeps :: "event list \<Rightarrow> nat" where
  "sleeps [] = 0"
| "sleeps (Sleep # evs) = Suc (sleeps evs)"
| "sleeps (_ # evs) = sleeps evs"

section \<open>AlertManager\<close>

text \<open>
  \<^verbatim>\<open>std::unordered_map<std::string, std::vector<AlertHandler>> handlers\<close>.
\<close>

type_synonym handler_table = "string \<rightharpoonup> AlertHandler list"

text \<open>
  \<^verbatim>\<open>handlers[key]\<close> on the non-const map: the vector stored under the key, and an
  empty vector inserted under it when there was none.
\<close>

definition registered :: "handler_table \<Rightarrow> string \<Rightarrow> AlertHandler list" where
  "registered tbl k = (case tbl k of None \<Rightarrow> [] | Some hs \<Rightarrow> hs)"

definition touch :: "handler_table \<Rightarrow> string \<Rightarrow> handler_table" where
  "touch tbl k = tbl(k \<mapsto> registered tbl k)"

text \<open>\<^verbatim>\<open>handlers[alert_type].push_back(handler);\<close>\<close>

definition subscribe :: "string \<Rightarrow> AlertHandler \<Rightarrow> handler_table \<Rightarrow> handler_table" where
  "subscribe alert_type handler tbl = tbl(alert_type \<mapsto> registered tbl alert_type @ [handler])"

text \<open>
  \<^verbatim>\<open>for (const auto& handler : handlers[alert["type"]]) { handler(alert); }\<close>
  The loop has no \<^verbatim>\<open>try\<close>: a handler that throws ends it. The result is the
  exception that left the loop, if any, and the invocations made.
\<close>

fun invoke_all :: "AlertHandler list \<Rightarrow> Alert \<Rightarrow> thrown option \<times> event list" where
  "invoke_all [] alert = (None, [])"
| "invoke_all (handler # rest) alert =
     (case hcall handler alert of
        Some t \<Rightarrow> (Some t, [Invoked handler alert])
      | None \<Rightarrow> (case invoke_all rest alert of (r, evs) \<Rightarrow> (r, Invoked handler alert # evs)))"

text \<open>
  Modelled from the spec: \<^verbatim>\<open>AlertManager::emit\<close>, which the health check calls, is not
  in the sources (\<^verbatim>\<open>manager.cpp\<close> has \<^verbatim>\<open>subscribe\<close> and the delivery loop inside
  \<^verbatim>\<open>startMonitoring\<close> only). The spec: "\<^verbatim>\<open>emit\<close> looks up all handlers registered for
  \<^verbatim>\<open>alert.type\<close> and invokes each in registration order on the caller's execution
  context"; handler failures are "not caught by the emitter". That is the delivery loop
  of \<^verbatim>\<open>startMonitoring\<close> applied to the alert, which is what \<open>emit\<close> is here.
\<close>

definition emit :: "handler_table \<Rightarrow> Alert \<Rightarrow> (thrown option \<times> event list) \<times> handler_table" where
  "emit tbl alert = (invoke_all (registered tbl (type alert)) alert, touch tbl (type alert))"

section \<open>BlockchainHealthCheck\<close>

text \<open>
  The object's mutable members: the gauges of \<^verbatim>\<open>prom_metrics_\<close> by member name, the
  alert hub \<^verbatim>\<open>alerts_\<close>, \<^verbatim>\<open>last_report_\<close>, and the history of calls made so far.
  \<^verbatim>\<open>config_\<close> is set once by the constructor and passed to each function.
\<close>

record BlockchainHealthCheck =
  prom_metrics :: "string \<rightharpoonup> rat"
  alerts :: handler_table
  last_report :: "HealthReport option"
  trace :: "event list"

definition MAX_BLOCK_LAG :: u64 where
  "MAX_BLOCK_LAG = 50"

definition gauge_Set :: "string \<Rightarrow> rat \<Rightarrow> BlockchainHealthCheck \<Rightarrow> BlockchainHealthCheck" where
  "gauge_Set g v s = s\<lparr>prom_metrics := (prom_metrics s)(g \<mapsto> v)\<rparr>"

text \<open>\<^verbatim>\<open>alerts_.emit(alert)\<close> on the object's hub, recorded in the history.\<close>

definition alerts_emit :: "Alert \<Rightarrow> BlockchainHealthCheck \<Rightarrow> thrown option \<times> BlockchainHealthCheck" where
  "alerts_emit alert s =
     (case emit (alerts s) alert of
        ((r, evs), tbl) \<Rightarrow> (r, s\<lparr>alerts := tbl, trace := trace s @ Emitted alert # evs\<rparr>))"

text \<open>
  The conversion of an unsigned integer to \<^verbatim>\<open>double\<close>, as it happens when the lag is
  passed to \<^verbatim>\<open>Gauge::Set(double)\<close> and stored in \<^verbatim>\<open>report.metrics\<close>: the value is
  rounded to 53 significant bits, to nearest, ties to even. \<open>double_exponent n\<close> is the
  number of low bits that do not fit (0 below \<open>2 ^ 53\<close>); the result is a multiple of
  \<open>2 ^ double_exponent n\<close>. A 64-bit value rounds to at most \<open>2 ^ 64\<close>, which is a
  \<^verbatim>\<open>double\<close>.
\<close>

fun double_exponent :: "nat \<Rightarrow> nat" where
  "double_exponent n = (if n < 2 ^ 53 then 0 else Suc (double_exponent (n div 2)))"

declare double_exponent.simps [simp del]

definition double_of_nat :: "nat \<Rightarrow> rat" where
  "double_of_nat n =
     (let e = double_exponent n; q = n div 2 ^ e; r = n mod 2 ^ e
      in if 2 * r < 2 ^ e \<or> (2 * r = 2 ^ e \<and> even q)
         then of_nat (q * 2 ^ e)
         else of_nat ((q + 1) * 2 ^ e))"

definition u64_number :: "u64 \<Rightarrow> rat" where
  "u64_number x = double_of_nat (unat x)"

text \<open>The body of the \<^verbatim>\<open>try\<close> block of \<^verbatim>\<open>checkBlockSync\<close>.\<close>

definition checkBlockSync_try ::
  "World \<Rightarrow> BlockchainHealthCheck \<Rightarrow> (thrown + u64 \<times> u64) \<times> BlockchainHealthCheck" where
  "checkBlockSync_try w s =
     (case eth_blockNumber (client w) of
        Inl t \<Rightarrow> (Inl t, s)
      | Inr localBlock \<Rightarrow>
          (case fetchNetworkBlock w of
             Inl t \<Rightarrow> (Inl t, s)
           | Inr networkBlock \<Rightarrow>
               (let s1 = gauge_Set ''block_diff'' (u64_number (networkBlock - localBlock)) s
                in if networkBlock - localBlock > MAX_BLOCK_LAG
                   then (case alerts_emit
                                \<lparr>type = ''block_sync_lag'', severity = Warning,
                                 details = [(''local'', UInt localBlock),
                                            (''network'', UInt networkBlock)]\<rparr> s1 of
                           (Some t, s2) \<Rightarrow> (Inl t, s2)
                         | (None, s2) \<Rightarrow> (Inr (localBlock, networkBlock), s2))
                   else (Inr (localBlock, networkBlock), s1))))"

text \<open>
  \<^verbatim>\<open>catch (const std::exception& e)\<close>: sets the health gauge to 0 and throws
  \<^verbatim>\<open>HealthCheckError("Block sync check failed: " + e.what())\<close>. Anything not derived
  from \<^verbatim>\<open>std::exception\<close> passes through.
\<close>

definition checkBlockSync ::
  "World \<Rightarrow> BlockchainHealthCheck \<Rightarrow> (error + u64 \<times> u64) \<times> BlockchainHealthCheck" where
  "checkBlockSync w s =
     (case checkBlockSync_try w s of
        (Inl (StdException what), s1) \<Rightarrow>
          (Inl (HealthCheckError (''Block sync check failed: '' @ what)),
           gauge_Set ''health_status'' 0 s1)
      | (Inl NonStdException, s1) \<Rightarrow> (Inl (Thrown NonStdException), s1)
      | (Inr r, s1) \<Rightarrow> (Inr r, s1))"

text \<open>The predicate of \<^verbatim>\<open>count_if\<close> in \<^verbatim>\<open>checkPeerConnections\<close>.\<close>

definition counted_active :: "nat \<Rightarrow> PeerInfo \<Rightarrow> bool" where
  "counted_active version p = (isActive p \<and> protocolVersion p = version)"

definition checkPeerConnections ::
  "Config \<Rightarrow> World \<Rightarrow> BlockchainHealthCheck \<Rightarrow> (error + PeerStats) \<times> BlockchainHealthCheck" where
  "checkPeerConnections config w s =
     (case admin_peers (client w) of
        Inl t \<Rightarrow> (Inl (Thrown t), s)
      | Inr peers \<Rightarrow>
          (let stats = \<lparr>total = length peers,
                        active = length (filter (counted_active
                                    (ETH_PROTOCOL_VERSION (client w))) peers)\<rparr>;
               s1 = gauge_Set ''peer_count'' (of_nat (active stats)) s
           in if int (active stats) < min_peers config
              then (case alerts_emit
                           \<lparr>type = ''low_peer_count'', severity = Critical,
                            details = [(''count'', Count (active stats))]\<rparr> s1 of
                      (Some t, s2) \<Rightarrow> (Inl (Thrown t), s2)
                    | (None, s2) \<Rightarrow> (Inr stats, s2))
              else (Inr stats, s1)))"

definition methods :: "string list" where
  "methods = [''eth_blockNumber'', ''eth_getBalance'', ''net_version'']"

text \<open>
  One round of the loop over \<^verbatim>\<open>methods\<close>: the count goes up when the call throws
  (\<^verbatim>\<open>catch (...)\<close>) and when the response carries an error object.
\<close>

definition rpc_failed :: "(string \<Rightarrow> thrown + rpc_response) \<Rightarrow> string \<Rightarrow> bool" where
  "rpc_failed exec method =
     (case exec method of Inl t \<Rightarrow> True | Inr response \<Rightarrow> error_isObject response)"

fun rpc_loop :: "(string \<Rightarrow> thrown + rpc_response) \<Rightarrow> string list \<Rightarrow> RpcStatus \<Rightarrow> RpcStatus" where
  "rpc_loop exec [] status = status"
| "rpc_loop exec (method # rest) status =
     rpc_loop exec rest
       (if rpc_failed exec method then status\<lparr>error_count := error_count status + 1\<rparr>
        else status)"

text \<open>
  Modelled from the spec: \<^verbatim>\<open>RpcStatus status;\<close> has no initialiser in the function and
  the struct is declared in the absent header; the count starts at 0, as the spec's
  "\<^verbatim>\<open>rpc_errors == 3\<close> for 3 configured methods" takes it.
  \<^verbatim>\<open>client_.getExecutor()\<close>, outside the \<^verbatim>\<open>try\<close>, is taken to return.
\<close>

definition checkRpcAvailability ::
  "World \<Rightarrow> BlockchainHealthCheck \<Rightarrow> RpcStatus \<times> BlockchainHealthCheck" where
  "checkRpcAvailability w s =
     (let status = rpc_loop (execute (client w)) methods \<lparr>error_count = 0\<rparr>
      in (status, gauge_Set ''rpc_errors'' (of_nat (error_count status)) s))"

definition checkDiskSpace ::
  "Config \<Rightarrow> World \<Rightarrow> BlockchainHealthCheck \<Rightarrow> (error + DiskSpaceStatus) \<times> BlockchainHealthCheck" where
  "checkDiskSpace config w s =
     (case fs_space w (chaindata_path config) of
        Inl t \<Rightarrow> (Inl (Thrown t), s)
      | Inr free \<Rightarrow>
          (let free_gb = of_nat free / 2 ^ 30;
               s1 = gauge_Set ''disk_space'' free_gb s;
               status = \<lparr>free_gb = free_gb, critical = free_gb < min_disk_gb config\<rparr>
           in if critical status
              then (case alerts_emit
                           \<lparr>type = ''low_disk_space'', severity = Critical,
                            details = [(''free_gb'', Number free_gb)]\<rparr> s1 of
                      (Some t, s2) \<Rightarrow> (Inl (Thrown t), s2)
                    | (None, s2) \<Rightarrow> (Inr status, s2))
              else (Inr status, s1)))"

definition runFullCheck ::
  "Config \<Rightarrow> World \<Rightarrow> BlockchainHealthCheck \<Rightarrow> (error + HealthReport) \<times> BlockchainHealthCheck" where
  "runFullCheck config w s =
     (case checkBlockSync w s of
        (Inl e, s1) \<Rightarrow> (Inl e, s1)
      | (Inr (localBlock, networkBlock), s1) \<Rightarrow>
          (case checkPeerConnections config w s1 of
             (Inl e, s2) \<Rightarrow> (Inl e, s2)
           | (Inr peerStats, s2) \<Rightarrow>
               (case checkRpcAvailability w s2 of
                  (rpcStatus, s3) \<Rightarrow>
                    (case checkDiskSpace config w s3 of
                       (Inl e, s4) \<Rightarrow> (Inl e, s4)
                     | (Inr diskStatus, s4) \<Rightarrow>
                         (Inr \<lparr>timestamp = now w,
                               metrics = [''block_diff'' \<mapsto> u64_number (networkBlock - localBlock),
                                          ''active_peers'' \<mapsto> of_nat (active peerStats),
                                          ''rpc_errors'' \<mapsto> of_nat (error_count rpcStatus),
                                          ''disk_free_gb'' \<mapsto> free_gb diskStatus],
                               overall_ok = (\<not> (localBlock = 0 \<or>
                                                 int (active peerStats) < min_peers config \<or>
                                                 critical diskStatus))\<rparr>,
                          s4)))))"

text \<open>
  The report that \<open>runFullCheck\<close> assembles from the results of the four probes, as one
  function of them (the same record as above; used to state facts about it).
\<close>

definition report_of :: "nat \<Rightarrow> Config \<Rightarrow> u64 \<times> u64 \<Rightarrow> PeerStats \<Rightarrow> RpcStatus \<Rightarrow> DiskSpaceStatus \<Rightarrow> HealthReport" where
  "report_of t config b p r d =
     \<lparr>timestamp = t,
      metrics = [''block_diff'' \<mapsto> u64_number (snd b - fst b),
                 ''active_peers'' \<mapsto> of_nat (active p),
                 ''rpc_errors'' \<mapsto> of_nat (error_count r),
                 ''disk_free_gb'' \<mapsto> free_gb d],
      overall_ok = (\<not> (fst b = 0 \<or> int (active p) < min_peers config \<or> critical d))\<rparr>"

text \<open>\<^verbatim>\<open>report.metrics.at(key)\<close>: throws \<^verbatim>\<open>std::out_of_range\<close> on a missing key.\<close>

definition metrics_at :: "HealthReport \<Rightarrow> string \<Rightarrow> error + rat" where
  "metrics_at report key =
     (case metrics report key of None \<Rightarrow> Inl (OutOfRange key) | Some v \<Rightarrow> Inr v)"

definition call_rotateLogs :: "World \<Rightarrow> BlockchainHealthCheck \<Rightarrow> thrown option \<times> BlockchainHealthCheck" where
  "call_rotateLogs w s = (rotateLogs w, s\<lparr>trace := trace s @ [RotateLogs]\<rparr>)"

definition call_admin_addPeer ::
  "World \<Rightarrow> string list \<Rightarrow> BlockchainHealthCheck \<Rightarrow> thrown option \<times> BlockchainHealthCheck" where
  "call_admin_addPeer w nodes s =
     (admin_addPeer (client w) nodes, s\<lparr>trace := trace s @ [AddPeer nodes]\<rparr>)"

text \<open>
  The third action of \<^verbatim>\<open>handleCriticalStatus\<close>, the second, and the whole function.
  No statement is inside a \<^verbatim>\<open>try\<close>: the first exception ends the function.
\<close>

definition reconnect_peers ::
  "Config \<Rightarrow> World \<Rightarrow> HealthReport \<Rightarrow> BlockchainHealthCheck \<Rightarrow> error option \<times> BlockchainHealthCheck" where
  "reconnect_peers config w report s =
     (case metrics_at report ''active_peers'' of
        Inl e \<Rightarrow> (Some e, s)
      | Inr active_peers \<Rightarrow>
          if active_peers < 3
          then (case call_admin_addPeer w (bootstrap_nodes config) s of
                  (Some t, s1) \<Rightarrow> (Some (Thrown t), s1)
                | (None, s1) \<Rightarrow> (None, s1))
          else (None, s))"

definition rotate_then_reconnect ::
  "Config \<Rightarrow> World \<Rightarrow> HealthReport \<Rightarrow> BlockchainHealthCheck \<Rightarrow> error option \<times> BlockchainHealthCheck" where
  "rotate_then_reconnect config w report s =
     (case metrics_at report ''disk_free_gb'' of
        Inl e \<Rightarrow> (Some e, s)
      | Inr disk_free_gb \<Rightarrow>
          if disk_free_gb < 5
          then (case call_rotateLogs w s of
                  (Some t, s1) \<Rightarrow> (Some (Thrown t), s1)
                | (None, s1) \<Rightarrow> reconnect_peers config w report s1)
          else reconnect_peers config w report s)"

definition handleCriticalStatus ::
  "Config \<Rightarrow> World \<Rightarrow> HealthReport \<Rightarrow> BlockchainHealthCheck \<Rightarrow> error option \<times> BlockchainHealthCheck" where
  "handleCriticalStatus config w report s =
     (case metrics_at report ''block_diff'' of
        Inl e \<Rightarrow> (Some e, s)
      | Inr block_diff \<Rightarrow>
          (case metrics_at report ''rpc_errors'' of
             Inl e \<Rightarrow> (Some e, s)
           | Inr rpc_errors \<Rightarrow>
               (case alerts_emit
                       \<lparr>type = ''node_unhealthy'', severity = Critical,
                        details = [(''block_diff'', Number block_diff),
                                   (''rpc_errors'', Number rpc_errors)]\<rparr> s of
                  (Some t, s1) \<Rightarrow> (Some (Thrown t), s1)
                | (None, s1) \<Rightarrow> rotate_then_reconnect config w report s1)))"

subsection \<open>The background worker\<close>

text \<open>
  The thread function of \<^verbatim>\<open>startBackgroundChecker\<close>:
  \<^verbatim>\<open>while (!shutdown_flag_.load()) { report = runFullCheck(); last_report_ = report;
  if (!report.overall_ok) handleCriticalStatus(report); sleep_for(HEALTHCHECK_INTERVAL); }\<close>

  The loop can run forever, so it is run against a schedule: for each test of the loop
  condition, the value the flag has then and the world the cycle would see. The loop has
  no \<^verbatim>\<open>try\<close>: an exception leaves the thread function (in C++ that calls
  \<^verbatim>\<open>std::terminate\<close>).
\<close>

record cycle =
  shutdown_flag :: bool
  world :: World

datatype worker_end =
    Exited
  | Uncaught error
  | Running

fun worker :: "Config \<Rightarrow> cycle list \<Rightarrow> BlockchainHealthCheck \<Rightarrow> worker_end \<times> BlockchainHealthCheck" where
  "worker config [] s = (Running, s)"
| "worker config (c # cs) s =
     (if shutdown_flag c then (Exited, s)
      else (case runFullCheck config (world c) s of
              (Inl e, s1) \<Rightarrow> (Uncaught e, s1)
            | (Inr report, s1) \<Rightarrow>
                (let s2 = s1\<lparr>last_report := Some report\<rparr>
                 in case (if \<not> overall_ok report
                          then handleCriticalStatus config (world c) report s2
                          else (None, s2)) of
                      (Some e, s3) \<Rightarrow> (Uncaught e, s3)
                    | (None, s3) \<Rightarrow> worker config cs (s3\<lparr>trace := trace s3 @ [Sleep]\<rparr>))))"

section \<open>Concrete inputs\<close>

text \<open>
  A node in good health: local head 100, reference head 120, four active peers of the
  expected protocol version, every RPC method answering, 50 GiB free; thresholds
  \<open>min_peers = 3\<close> and \<open>min_disk_gb = 10\<close>; a fresh object with no subscription.
\<close>

definition peer_up :: PeerInfo where
  "peer_up = \<lparr>isActive = True, protocolVersion = 68\<rparr>"

definition config0 :: Config where
  "config0 = \<lparr>min_peers = 3, min_disk_gb = 10, chaindata_path = ''/var/chain'',
              bootstrap_nodes = [''enode://a'', ''enode://b'']\<rparr>"

definition client0 :: EthereumClient where
  "client0 = \<lparr>eth_blockNumber = Inr 100,
              admin_peers = Inr [peer_up, peer_up, peer_up, peer_up],
              execute = (\<lambda>method. Inr (Response False)),
              admin_addPeer = (\<lambda>nodes. None),
              ETH_PROTOCOL_VERSION = 68\<rparr>"

definition world0 :: World where
  "world0 = \<lparr>client = client0, fetchNetworkBlock = Inr 120,
             fs_space = (\<lambda>path. Inr (50 * 2 ^ 30)), rotateLogs = None, now = 1000\<rparr>"

definition hc0 :: BlockchainHealthCheck where
  "hc0 = \<lparr>prom_metrics = Map.empty, alerts = Map.empty, last_report = None, trace = []\<rparr>"

text \<open>The same node with one collaborator changed.\<close>

definition world_sync_down :: World where
  "world_sync_down = world0\<lparr>client := client0\<lparr>eth_blockNumber := Inl (StdException ''timeout'')\<rparr>\<rparr>"

definition world_peers_down :: World where
  "world_peers_down = world0\<lparr>client := client0\<lparr>admin_peers := Inl (StdException ''refused'')\<rparr>\<rparr>"

definition world_disk_down :: World where
  "world_disk_down = world0\<lparr>fs_space := (\<lambda>path. Inl (StdException ''no such directory''))\<rparr>"

definition world_rpc_down :: World where
  "world_rpc_down = world0\<lparr>client := client0\<lparr>execute := (\<lambda>method. Inl (StdException ''timeout''))\<rparr>\<rparr>"

definition world_disk_low :: World where
  "world_disk_low = world0\<lparr>fs_space := (\<lambda>path. Inr (3 * 2 ^ 30))\<rparr>"

definition world_lagging :: World where
  "world_lagging = world0\<lparr>fetchNetworkBlock := Inr 200\<rparr>"

definition world_ahead :: World where
  "world_ahead = world0\<lparr>client := client0\<lparr>eth_blockNumber := Inr 121\<rparr>\<rparr>"

definition world_far_ahead :: World where
  "world_far_ahead = world0\<lparr>client := client0\<lparr>eth_blockNumber := Inr 18446744073709551615\<rparr>,
                            fetchNetworkBlock := Inr 0\<rparr>"

text \<open>Handlers: two that return, one that throws.\<close>

definition handler_a :: AlertHandler where
  "handler_a = AlertHandler ''a'' (\<lambda>alert. None)"

definition handler_b :: AlertHandler where
  "handler_b = AlertHandler ''b'' (\<lambda>alert. None)"

definition handler_bad :: AlertHandler where
  "handler_bad = AlertHandler ''bad'' (\<lambda>alert. Some (StdException ''handler failed''))"

definition alert0 :: Alert where
  "alert0 = \<lparr>type = ''low_disk_space'', severity = Critical, details = [(''free_gb'', Number 2)]\<rparr>"

definition hc_bad :: BlockchainHealthCheck where
  "hc_bad = hc0\<lparr>alerts := subscribe ''node_unhealthy'' handler_bad Map.empty\<rparr>"

text \<open>Failing reports with 3 and with 10 GiB free.\<close>

definition report_disk3 :: HealthReport where
  "report_disk3 = \<lparr>timestamp = 1000,
                   metrics = [''block_diff'' \<mapsto> 20, ''active_peers'' \<mapsto> 2,
                              ''rpc_errors'' \<mapsto> 0, ''disk_free_gb'' \<mapsto> 3],
                   overall_ok = False\<rparr>"

definition report_disk10 :: HealthReport where
  "report_disk10 = \<lparr>timestamp = 1000,
                    metrics = [''block_diff'' \<mapsto> 20, ''active_peers'' \<mapsto> 2,
                               ''rpc_errors'' \<mapsto> 0, ''disk_free_gb'' \<mapsto> 10],
                    overall_ok = False\<rparr>"

text \<open>Below \<open>2 ^ 53\<close> the conversion to \<^verbatim>\<open>double\<close> is exact.\<close>

lemma double_of_nat_exact: "n < 2 ^ 53 \<Longrightarrow> double_of_nat n = of_nat n"
  by (simp add: double_of_nat_def double_exponent.simps)

lemmas probe_defs =
  runFullCheck_def checkBlockSync_def checkBlockSync_try_def checkPeerConnections_def
  checkRpcAvailability_def checkDiskSpace_def alerts_emit_def emit_def registered_def
  touch_def gauge_Set_def u64_number_def double_of_nat_exact MAX_BLOCK_LAG_def methods_def
  rpc_failed_def
  counted_active_def

lemmas escalation_defs =
  handleCriticalStatus_def rotate_then_reconnect_def reconnect_peers_def metrics_at_def
  call_rotateLogs_def call_admin_addPeer_def

lemmas input_defs =
  peer_up_def config0_def client0_def world0_def hc0_def world_sync_down_def
  world_peers_down_def world_disk_down_def world_rpc_down_def world_disk_low_def
  world_lagging_def
  world_ahead_def world_far_ahead_def handler_a_def handler_b_def handler_bad_def
  alert0_def hc_bad_def report_disk3_def report_disk10_def subscribe_def

section \<open>The history of calls\<close>

lemma emitted_append: "emitted (xs @ ys) = emitted xs @ emitted ys"
  by (induction xs rule: emitted.induct) simp_all

lemma invoked_append: "invoked (xs @ ys) = invoked xs @ invoked ys"
  by (induction xs rule: invoked.induct) simp_all

lemma rotations_append: "rotations (xs @ ys) = rotations xs + rotations ys"
  by (induction xs rule: rotations.induct) simp_all

lemma addPeers_append: "addPeers (xs @ ys) = addPeers xs @ addPeers ys"
  by (induction xs rule: addPeers.induct) simp_all

lemma sleeps_append: "sleeps (xs @ ys) = sleeps xs + sleeps ys"
  by (induction xs rule: sleeps.induct) simp_all

lemmas history_append =
  emitted_append invoked_append rotations_append addPeers_append sleeps_append

text \<open>The delivery loop makes handler invocations and nothing else.\<close>

lemma invoke_all_quiet:
  "emitted (snd (invoke_all hs a)) = [] \<and> rotations (snd (invoke_all hs a)) = 0 \<and>
   addPeers (snd (invoke_all hs a)) = [] \<and> sleeps (snd (invoke_all hs a)) = 0"
  by (induction hs) (auto split: option.splits prod.splits)

lemma invoke_all_returning:
  "\<forall>h \<in> set hs. hcall h a = None \<Longrightarrow>
   fst (invoke_all hs a) = None \<and> invoked (snd (invoke_all hs a)) = map (\<lambda>h. (h, a)) hs"
  by (induction hs) (auto split: option.splits prod.splits)

lemma registered_touch: "registered (touch tbl k) = registered tbl"
  by (rule ext) (simp add: registered_def touch_def)

subsection \<open>Emission through the hub\<close>

lemma alerts_emit_trace:
  "trace (snd (alerts_emit a s)) = trace s @ Emitted a # snd (invoke_all (registered (alerts s) (type a)) a)"
  by (simp add: alerts_emit_def emit_def split: prod.splits)

lemma alerts_emit_history:
  "emitted (trace (snd (alerts_emit a s))) = emitted (trace s) @ [a]"
  "rotations (trace (snd (alerts_emit a s))) = rotations (trace s)"
  "addPeers (trace (snd (alerts_emit a s))) = addPeers (trace s)"
  "sleeps (trace (snd (alerts_emit a s))) = sleeps (trace s)"
  by (simp_all add: alerts_emit_trace history_append invoke_all_quiet)

lemma alerts_emit_fst:
  "fst (alerts_emit a s) = fst (invoke_all (registered (alerts s) (type a)) a)"
  by (simp add: alerts_emit_def emit_def split: prod.splits)

lemma alerts_emit_registered:
  "registered (alerts (snd (alerts_emit a s))) = registered (alerts s)"
  by (simp add: alerts_emit_def emit_def registered_touch split: prod.splits)

lemma alerts_emit_last_report:
  "last_report (snd (alerts_emit a s)) = last_report s"
  by (simp add: alerts_emit_def emit_def split: prod.splits)

lemma alerts_emit_cong:
  "registered (alerts s) = registered (alerts s') \<Longrightarrow> fst (alerts_emit a s) = fst (alerts_emit a s')"
  by (simp add: alerts_emit_fst)

lemma gauge_Set_simps:
  "alerts (gauge_Set g v s) = alerts s" "trace (gauge_Set g v s) = trace s"
  "last_report (gauge_Set g v s) = last_report s"
  by (simp_all add: gauge_Set_def)

section \<open>The probes, one by one\<close>

subsection \<open>Block sync\<close>

lemma checkBlockSync_try_eq:
  "checkBlockSync_try w s =
     (case eth_blockNumber (client w) of Inl t \<Rightarrow> (Inl t, s)
      | Inr lb \<Rightarrow> (case fetchNetworkBlock w of Inl t \<Rightarrow> (Inl t, s)
         | Inr nb \<Rightarrow>
            (let s1 = gauge_Set ''block_diff'' (u64_number (nb - lb)) s;
                 a = \<lparr>type = ''block_sync_lag'', severity = Warning,
                      details = [(''local'', UInt lb), (''network'', UInt nb)]\<rparr>
             in if nb - lb > MAX_BLOCK_LAG
                then (case fst (alerts_emit a s1) of Some t \<Rightarrow> Inl t | None \<Rightarrow> Inr (lb, nb),
                      snd (alerts_emit a s1))
                else (Inr (lb, nb), s1))))"
  by (simp add: checkBlockSync_try_def Let_def split: sum.splits prod.splits option.splits)

lemma checkBlockSync_eq:
  "checkBlockSync w s =
     (case fst (checkBlockSync_try w s) of
        Inl (StdException what) \<Rightarrow> Inl (HealthCheckError (''Block sync check failed: '' @ what))
      | Inl NonStdException \<Rightarrow> Inl (Thrown NonStdException)
      | Inr r \<Rightarrow> Inr r,
      case fst (checkBlockSync_try w s) of
        Inl (StdException what) \<Rightarrow> gauge_Set ''health_status'' 0 (snd (checkBlockSync_try w s))
      | _ \<Rightarrow> snd (checkBlockSync_try w s))"
  by (simp add: checkBlockSync_def split: sum.splits prod.splits thrown.splits)

lemma checkBlockSync_try_cong:
  assumes "registered (alerts s) = registered (alerts s')"
  shows "fst (checkBlockSync_try w s) = fst (checkBlockSync_try w s')"
  using assms
  by (simp add: checkBlockSync_try_eq Let_def alerts_emit_fst gauge_Set_simps split: sum.splits)

lemma checkBlockSync_try_registered:
  "registered (alerts (snd (checkBlockSync_try w s))) = registered (alerts s)"
  by (simp add: checkBlockSync_try_eq Let_def alerts_emit_registered gauge_Set_simps split: sum.splits)

lemma checkBlockSync_cong:
  assumes "registered (alerts s) = registered (alerts s')"
  shows "fst (checkBlockSync w s) = fst (checkBlockSync w s')"
  by (simp add: checkBlockSync_eq checkBlockSync_try_cong [OF assms])

lemma checkBlockSync_registered:
  "registered (alerts (snd (checkBlockSync w s))) = registered (alerts s)"
  by (simp add: checkBlockSync_eq checkBlockSync_try_registered gauge_Set_simps split: sum.splits thrown.splits)

lemma checkBlockSync_Inr:
  assumes "checkBlockSync w s = (Inr (lb, nb), s1)"
  shows "eth_blockNumber (client w) = Inr lb \<and> fetchNetworkBlock w = Inr nb"
  using assms
  by (auto simp: checkBlockSync_def checkBlockSync_try_def Let_def split: sum.splits prod.splits option.splits thrown.splits if_splits)

subsection \<open>Peers\<close>

lemma checkPeerConnections_eq:
  "checkPeerConnections config w s =
     (case admin_peers (client w) of
        Inl t \<Rightarrow> (Inl (Thrown t), s)
      | Inr peers \<Rightarrow>
          (let n = length (filter (counted_active (ETH_PROTOCOL_VERSION (client w))) peers);
               stats = \<lparr>total = length peers, active = n\<rparr>;
               s1 = gauge_Set ''peer_count'' (of_nat n) s;
               a = \<lparr>type = ''low_peer_count'', severity = Critical, details = [(''count'', Count n)]\<rparr>
           in if int n < min_peers config
              then (case fst (alerts_emit a s1) of Some t \<Rightarrow> Inl (Thrown t) | None \<Rightarrow> Inr stats,
                    snd (alerts_emit a s1))
              else (Inr stats, s1)))"
  by (simp add: checkPeerConnections_def Let_def split: sum.splits prod.splits option.splits)

lemma checkPeerConnections_cong:
  assumes "registered (alerts s) = registered (alerts s')"
  shows "fst (checkPeerConnections config w s) = fst (checkPeerConnections config w s')"
  using assms
  by (simp add: checkPeerConnections_eq Let_def alerts_emit_fst gauge_Set_simps split: sum.splits)

lemma checkPeerConnections_registered:
  "registered (alerts (snd (checkPeerConnections config w s))) = registered (alerts s)"
  by (simp add: checkPeerConnections_eq Let_def alerts_emit_registered gauge_Set_simps split: sum.splits)

lemma checkPeerConnections_Inr:
  assumes "checkPeerConnections config w s = (Inr stats, s1)"
  shows "\<exists>peers. admin_peers (client w) = Inr peers \<and>
           active stats = length (filter (counted_active (ETH_PROTOCOL_VERSION (client w))) peers)"
  using assms
  by (auto simp: checkPeerConnections_eq Let_def split: sum.splits option.splits if_splits)

subsection \<open>RPC\<close>

lemma rpc_loop_count:
  "error_count (rpc_loop exec ms status) = error_count status + length (filter (rpc_failed exec) ms)"
  by (induction ms arbitrary: status) simp_all

lemma checkRpcAvailability_count:
  "error_count (fst (checkRpcAvailability w s)) = length (filter (rpc_failed (execute (client w))) methods)"
  by (simp add: checkRpcAvailability_def Let_def rpc_loop_count)

lemma checkRpcAvailability_cong:
  "fst (checkRpcAvailability w s) = fst (checkRpcAvailability w s')"
  by (simp add: checkRpcAvailability_def Let_def)

lemma checkRpcAvailability_alerts:
  "alerts (snd (checkRpcAvailability w s)) = alerts s"
  by (simp add: checkRpcAvailability_def Let_def gauge_Set_simps)

subsection \<open>Disk\<close>

lemma checkDiskSpace_eq:
  "checkDiskSpace config w s =
     (case fs_space w (chaindata_path config) of
        Inl t \<Rightarrow> (Inl (Thrown t), s)
      | Inr free \<Rightarrow>
          (let gb = of_nat free / 2 ^ 30;
               status = \<lparr>free_gb = gb, critical = gb < min_disk_gb config\<rparr>;
               s1 = gauge_Set ''disk_space'' gb s;
               a = \<lparr>type = ''low_disk_space'', severity = Critical, details = [(''free_gb'', Number gb)]\<rparr>
           in if gb < min_disk_gb config
              then (case fst (alerts_emit a s1) of Some t \<Rightarrow> Inl (Thrown t) | None \<Rightarrow> Inr status,
                    snd (alerts_emit a s1))
              else (Inr status, s1)))"
  by (simp add: checkDiskSpace_def Let_def split: sum.splits prod.splits option.splits)

lemma checkDiskSpace_cong:
  assumes "registered (alerts s) = registered (alerts s')"
  shows "fst (checkDiskSpace config w s) = fst (checkDiskSpace config w s')"
  using assms
  by (simp add: checkDiskSpace_eq Let_def alerts_emit_fst gauge_Set_simps split: sum.splits)

lemma checkDiskSpace_registered:
  "registered (alerts (snd (checkDiskSpace config w s))) = registered (alerts s)"
  by (simp add: checkDiskSpace_eq Let_def alerts_emit_registered gauge_Set_simps split: sum.splits)

lemma checkDiskSpace_Inr:
  assumes "checkDiskSpace config w s = (Inr status, s1)"
  shows "\<exists>free. fs_space w (chaindata_path config) = Inr free \<and>
           free_gb status = of_nat free / 2 ^ 30 \<and>
           critical status = (of_nat free / 2 ^ 30 < min_disk_gb config)"
  using assms
  by (auto simp: checkDiskSpace_eq Let_def split: sum.splits option.splits if_splits)

section \<open>The full check\<close>

lemma runFullCheck_eq:
  "runFullCheck config w s =
     (let b = checkBlockSync w s;
          p = checkPeerConnections config w (snd b);
          r = checkRpcAvailability w (snd p);
          d = checkDiskSpace config w (snd r)
      in case fst b of
           Inl e \<Rightarrow> (Inl e, snd b)
         | Inr bv \<Rightarrow>
             (case fst p of
                Inl e \<Rightarrow> (Inl e, snd p)
              | Inr pv \<Rightarrow>
                  (case fst d of
                     Inl e \<Rightarrow> (Inl e, snd d)
                   | Inr dv \<Rightarrow> (Inr (report_of (now w) config bv pv (fst r) dv), snd d))))"
  by (simp add: runFullCheck_def report_of_def Let_def split: sum.splits prod.splits)

lemma runFullCheck_InrD:
  assumes "runFullCheck config w s = (Inr report, s')"
  shows "\<exists>bv pv dv. fst (checkBlockSync w s) = Inr bv \<and>
           fst (checkPeerConnections config w (snd (checkBlockSync w s))) = Inr pv \<and>
           fst (checkDiskSpace config w
                  (snd (checkRpcAvailability w
                     (snd (checkPeerConnections config w (snd (checkBlockSync w s))))))) = Inr dv \<and>
           report = report_of (now w) config bv pv
                      (fst (checkRpcAvailability w
                         (snd (checkPeerConnections config w (snd (checkBlockSync w s)))))) dv"
  using assms
  by (auto simp: runFullCheck_eq Let_def split: sum.splits)

lemma runFullCheck_cong:
  assumes "registered (alerts s) = registered (alerts s')"
  shows "fst (runFullCheck config w s) = fst (runFullCheck config w s')"
proof -
  let ?b = "checkBlockSync w s" and ?b' = "checkBlockSync w s'"
  let ?p = "checkPeerConnections config w (snd ?b)" and ?p' = "checkPeerConnections config w (snd ?b')"
  let ?r = "checkRpcAvailability w (snd ?p)" and ?r' = "checkRpcAvailability w (snd ?p')"
  let ?d = "checkDiskSpace config w (snd ?r)" and ?d' = "checkDiskSpace config w (snd ?r')"
  have b: "fst ?b = fst ?b'"
    by (rule checkBlockSync_cong [OF assms])
  have rb: "registered (alerts (snd ?b)) = registered (alerts (snd ?b'))"
    by (simp add: checkBlockSync_registered assms)
  have p: "fst ?p = fst ?p'"
    by (rule checkPeerConnections_cong [OF rb])
  have rp: "registered (alerts (snd ?p)) = registered (alerts (snd ?p'))"
    by (simp add: checkPeerConnections_registered rb)
  have r: "fst ?r = fst ?r'"
    by (rule checkRpcAvailability_cong)
  have rr: "registered (alerts (snd ?r)) = registered (alerts (snd ?r'))"
    by (simp add: checkRpcAvailability_alerts rp)
  have d: "fst ?d = fst ?d'"
    by (rule checkDiskSpace_cong [OF rr])
  show ?thesis
    unfolding runFullCheck_eq Let_def fst_conv 
    by (simp add: b p r d split: sum.splits)
qed

lemma runFullCheck_registered:
  "registered (alerts (snd (runFullCheck config w s))) = registered (alerts s)"
  by (simp add: runFullCheck_eq Let_def checkBlockSync_registered checkPeerConnections_registered
      checkDiskSpace_registered checkRpcAvailability_alerts split: sum.splits)

text \<open>The clock is read for the timestamp only.\<close>

lemma probes_now:
  "checkBlockSync (w\<lparr>now := t\<rparr>) s = checkBlockSync w s"
  "checkPeerConnections config (w\<lparr>now := t\<rparr>) s = checkPeerConnections config w s"
  "checkRpcAvailability (w\<lparr>now := t\<rparr>) s = checkRpcAvailability w s"
  "checkDiskSpace config (w\<lparr>now := t\<rparr>) s = checkDiskSpace config w s"
  by (simp_all add: checkBlockSync_def checkBlockSync_try_def checkPeerConnections_def
      checkRpcAvailability_def checkDiskSpace_def cong: sum.case_cong)

lemma report_of_now:
  "timestamp_update (\<lambda>_. t) (report_of t0 config b p r d) = report_of t config b p r d"
  by (simp add: report_of_def)

lemma runFullCheck_now:
  "runFullCheck config (w\<lparr>now := t\<rparr>) s =
     (map_sum id (timestamp_update (\<lambda>_. t)) (fst (runFullCheck config w s)),
      snd (runFullCheck config w s))"
  by (simp add: runFullCheck_eq probes_now Let_def report_of_now split: sum.splits)

lemma probes_exec:
  "checkBlockSync (w\<lparr>client := (client w)\<lparr>execute := exec\<rparr>\<rparr>) s = checkBlockSync w s"
  "checkPeerConnections config (w\<lparr>client := (client w)\<lparr>execute := exec\<rparr>\<rparr>) s = checkPeerConnections config w s"
  "checkDiskSpace config (w\<lparr>client := (client w)\<lparr>execute := exec\<rparr>\<rparr>) s = checkDiskSpace config w s"
  by (simp_all add: checkBlockSync_def checkBlockSync_try_def checkPeerConnections_def
      checkDiskSpace_def cong: sum.case_cong)

lemma report_of_simps:
  "overall_ok (report_of t config b p r d) =
     (\<not> (fst b = 0 \<or> int (active p) < min_peers config \<or> critical d))"
  "timestamp (report_of t config b p r d) = t"
  "metrics (report_of t config b p r d) ''block_diff'' = Some (u64_number (snd b - fst b))"
  "metrics (report_of t config b p r d) ''active_peers'' = Some (of_nat (active p))"
  "metrics (report_of t config b p r d) ''rpc_errors'' = Some (of_nat (error_count r))"
  "metrics (report_of t config b p r d) ''disk_free_gb'' = Some (free_gb d)"
  "dom (metrics (report_of t config b p r d)) =
     {''block_diff'', ''active_peers'', ''rpc_errors'', ''disk_free_gb''}"
  by (auto simp: report_of_def)

text \<open>The verdict does not depend on the RPC answers.\<close>

lemma runFullCheck_exec:
  assumes "runFullCheck config w s = (Inr report, s')"
  shows "\<exists>report' s''. runFullCheck config (w\<lparr>client := (client w)\<lparr>execute := exec\<rparr>\<rparr>) s = (Inr report', s'')
           \<and> overall_ok report' = overall_ok report"
proof -
  let ?w = "w\<lparr>client := (client w)\<lparr>execute := exec\<rparr>\<rparr>"
  let ?p = "checkPeerConnections config w (snd (checkBlockSync w s))"
  let ?r = "checkRpcAvailability w (snd ?p)" and ?r' = "checkRpcAvailability ?w (snd ?p)"
  from runFullCheck_InrD [OF assms] obtain bv pv dv where
    b: "fst (checkBlockSync w s) = Inr bv" and p: "fst ?p = Inr pv" and
    d: "fst (checkDiskSpace config w (snd ?r)) = Inr dv" and
    r: "report = report_of (now w) config bv pv (fst ?r) dv"
    by blast
  have "registered (alerts (snd ?r')) = registered (alerts (snd ?r))"
    by (simp add: checkRpcAvailability_alerts)
  then have "fst (checkDiskSpace config w (snd ?r')) = fst (checkDiskSpace config w (snd ?r))"
    by (rule checkDiskSpace_cong)
  with d have d': "fst (checkDiskSpace config w (snd ?r')) = Inr dv"
    by simp
  have "runFullCheck config ?w s =
          (Inr (report_of (now ?w) config bv pv (fst ?r') dv), snd (checkDiskSpace config w (snd ?r')))"
    by (simp add: runFullCheck_eq [of config ?w] probes_exec Let_def b p d')
  then show ?thesis
    by (simp add: r report_of_simps)
qed

section \<open>Claims about the full check\<close>

text \<open>
  Claim C1. Whenever \<open>runFullCheck\<close> returns a report, \<open>overall_ok\<close> is false exactly when
  the local block number is 0, or the number of active peers is below \<open>min_peers\<close>, or the
  free space in GiB is below \<open>min_disk_gb\<close> (the disk probe's \<open>critical\<close>). The answers
  of the RPC methods have no part in it: with any other answers the same state yields a
  report with the same \<open>overall_ok\<close>.
\<close>

theorem runFullCheck_overall_ok:
  assumes "runFullCheck config w s = (Inr report, s')"
  shows "\<exists>localBlock peers free.
           eth_blockNumber (client w) = Inr localBlock \<and>
           admin_peers (client w) = Inr peers \<and>
           fs_space w (chaindata_path config) = Inr free \<and>
           (overall_ok report = False) =
             (localBlock = 0 \<or>
              int (length (filter (counted_active (ETH_PROTOCOL_VERSION (client w))) peers))
                < min_peers config \<or>
              of_nat free / 2 ^ 30 < min_disk_gb config) \<and>
           (\<forall>exec. \<exists>report' s''.
              runFullCheck config (w\<lparr>client := (client w)\<lparr>execute := exec\<rparr>\<rparr>) s = (Inr report', s'') \<and>
              overall_ok report' = overall_ok report)"
proof -
  let ?b = "checkBlockSync w s"
  let ?p = "checkPeerConnections config w (snd ?b)"
  let ?r = "checkRpcAvailability w (snd ?p)"
  let ?d = "checkDiskSpace config w (snd ?r)"
  from runFullCheck_InrD [OF assms] obtain bv pv dv where
    b: "fst ?b = Inr bv" and p: "fst ?p = Inr pv" and d: "fst ?d = Inr dv" and
    r: "report = report_of (now w) config bv pv (fst ?r) dv"
    by blast
  from b have "?b = (Inr (fst bv, snd bv), snd ?b)"
    by (simp add: prod_eq_iff)
  then have fetched: "eth_blockNumber (client w) = Inr (fst bv)"
    by (blast dest: checkBlockSync_Inr)
  from p have "?p = (Inr pv, snd ?p)"
    by (simp add: prod_eq_iff)
  then obtain peers where peers: "admin_peers (client w) = Inr peers"
    "active pv = length (filter (counted_active (ETH_PROTOCOL_VERSION (client w))) peers)"
    by (blast dest: checkPeerConnections_Inr)
  from d have "?d = (Inr dv, snd ?d)"
    by (simp add: prod_eq_iff)
  then obtain free where free: "fs_space w (chaindata_path config) = Inr free"
    "critical dv = (of_nat free / 2 ^ 30 < min_disk_gb config)"
    by (blast dest: checkDiskSpace_Inr)
  have "(overall_ok report = False) =
          (fst bv = 0 \<or>
           int (length (filter (counted_active (ETH_PROTOCOL_VERSION (client w))) peers))
             < min_peers config \<or>
           of_nat free / 2 ^ 30 < min_disk_gb config)"
    by (simp add: r report_of_simps peers free)
  with fetched peers(1) free(1) runFullCheck_exec [OF assms] show ?thesis
    by blast
qed

theorem runFullCheck_overall_ok_witness:
  "\<exists>report s'. runFullCheck config0 world0 hc0 = (Inr report, s') \<and> overall_ok report \<and>
     (\<exists>report' s''. runFullCheck config0 world_rpc_down hc0 = (Inr report', s'') \<and> overall_ok report')"
proof -
  obtain report s' where run: "runFullCheck config0 world0 hc0 = (Inr report, s')"
    by (simp add: probe_defs input_defs)
  have ok: "overall_ok report"
    using run by (auto simp: probe_defs input_defs)
  have w: "world_rpc_down = world0\<lparr>client := (client world0)\<lparr>execute := (\<lambda>method. Inl (StdException ''timeout''))\<rparr>\<rparr>"
    by (simp add: input_defs)
  from runFullCheck_overall_ok [OF run] ok run show ?thesis
    unfolding w by metis
qed

text \<open>
  Claim C8. With the collaborators unchanged, a second \<open>runFullCheck\<close>, started from the
  state the first one left and at any later clock reading, returns a report with the same
  \<open>metrics\<close> and the same \<open>overall_ok\<close>; only the timestamp is the new clock reading.
\<close>

theorem runFullCheck_idempotent:
  assumes "runFullCheck config w s = (Inr report1, s1)"
  shows "\<exists>report2 s2. runFullCheck config (w\<lparr>now := t\<rparr>) s1 = (Inr report2, s2) \<and>
           metrics report2 = metrics report1 \<and> overall_ok report2 = overall_ok report1 \<and>
           timestamp report2 = t"
proof -
  have "registered (alerts (snd (runFullCheck config w s))) = registered (alerts s)"
    by (rule runFullCheck_registered)
  then have "registered (alerts s1) = registered (alerts s)"
    by (simp add: assms)
  then have "fst (runFullCheck config w s1) = fst (runFullCheck config w s)"
    by (rule runFullCheck_cong)
  then have "fst (runFullCheck config w s1) = Inr report1"
    by (simp add: assms)
  then have "runFullCheck config (w\<lparr>now := t\<rparr>) s1 =
               (Inr (report1\<lparr>timestamp := t\<rparr>), snd (runFullCheck config w s1))"
    by (simp add: runFullCheck_now)
  then show ?thesis
    by simp
qed

theorem runFullCheck_idempotent_witness:
  "\<exists>report1 s1 report2 s2.
     runFullCheck config0 world_lagging hc0 = (Inr report1, s1) \<and>
     runFullCheck config0 (world_lagging\<lparr>now := 1015\<rparr>) s1 = (Inr report2, s2) \<and>
     metrics report2 = metrics report1 \<and> overall_ok report2 = overall_ok report1 \<and>
     timestamp report1 = 1000 \<and> timestamp report2 = 1015"
proof -
  obtain report1 s1 where run: "runFullCheck config0 world_lagging hc0 = (Inr report1, s1)"
    by (simp add: probe_defs input_defs)
  have "timestamp report1 = 1000"
    using run by (auto simp: probe_defs input_defs)
  with runFullCheck_idempotent [OF run, of 1015] run show ?thesis
    by blast
qed

subsection \<open>Escalation\<close>

lemma reconnect_peers_eq:
  assumes "metrics report ''active_peers'' = Some ap"
  shows "reconnect_peers config w report s =
           (if ap < 3
            then (map_option Thrown (admin_addPeer (client w) (bootstrap_nodes config)),
                  s\<lparr>trace := trace s @ [AddPeer (bootstrap_nodes config)]\<rparr>)
            else (None, s))"
  using assms
  by (simp add: reconnect_peers_def metrics_at_def call_admin_addPeer_def split: option.splits)

lemma rotate_then_reconnect_eq:
  assumes "metrics report ''disk_free_gb'' = Some df"
  shows "rotate_then_reconnect config w report s =
           (if df < 5
            then (case rotateLogs w of
                    Some t \<Rightarrow> (Some (Thrown t), s\<lparr>trace := trace s @ [RotateLogs]\<rparr>)
                  | None \<Rightarrow> reconnect_peers config w report (s\<lparr>trace := trace s @ [RotateLogs]\<rparr>))
            else reconnect_peers config w report s)"
  using assms
  by (simp add: rotate_then_reconnect_def metrics_at_def call_rotateLogs_def split: option.splits)

lemma handleCriticalStatus_eq:
  assumes "metrics report ''block_diff'' = Some bd" and "metrics report ''rpc_errors'' = Some re"
  shows "handleCriticalStatus config w report s =
           (let e = alerts_emit \<lparr>type = ''node_unhealthy'', severity = Critical,
                                 details = [(''block_diff'', Number bd), (''rpc_errors'', Number re)]\<rparr> s
            in case fst e of
                 Some t \<Rightarrow> (Some (Thrown t), snd e)
               | None \<Rightarrow> rotate_then_reconnect config w report (snd e))"
  using assms
  by (simp add: handleCriticalStatus_def metrics_at_def Let_def split: option.splits prod.splits)

lemma escalation_no_OutOfRange:
  assumes "metrics report ''block_diff'' = Some bd" and "metrics report ''rpc_errors'' = Some re"
    and "metrics report ''disk_free_gb'' = Some df" and "metrics report ''active_peers'' = Some ap"
  shows "fst (handleCriticalStatus config w report s) \<noteq> Some (OutOfRange key)"
  by (auto simp: handleCriticalStatus_eq [OF assms(1,2)] rotate_then_reconnect_eq [OF assms(3)]
      reconnect_peers_eq [OF assms(4)] Let_def split: option.splits)

text \<open>
  Claim C9. A report returned by \<open>runFullCheck\<close> has exactly the keys \<open>block_diff\<close>,
  \<open>active_peers\<close>, \<open>rpc_errors\<close> and \<open>disk_free_gb\<close> in its metrics; each lookup
  \<open>metrics.at(key)\<close> that \<open>handleCriticalStatus\<close> performs succeeds on it, and
  \<open>handleCriticalStatus\<close> never ends with \<open>std::out_of_range\<close> on such a report.
\<close>

theorem runFullCheck_metrics_keys:
  assumes "runFullCheck config w s = (Inr report, s')"
  shows "dom (metrics report) = {''block_diff'', ''active_peers'', ''rpc_errors'', ''disk_free_gb''} \<and>
         (\<forall>key \<in> {''block_diff'', ''rpc_errors'', ''disk_free_gb'', ''active_peers''}.
            \<exists>v. metrics_at report key = Inr v) \<and>
         (\<forall>config' w' s2 key.
            fst (handleCriticalStatus config' w' report s2) \<noteq> Some (OutOfRange key))"
proof -
  from runFullCheck_InrD [OF assms] obtain t b p r d where r: "report = report_of t config b p r d"
    by blast
  have keys: "metrics report ''block_diff'' = Some (u64_number (snd b - fst b))"
    "metrics report ''rpc_errors'' = Some (of_nat (error_count r))"
    "metrics report ''disk_free_gb'' = Some (free_gb d)"
    "metrics report ''active_peers'' = Some (of_nat (active p))"
    by (simp_all add: r report_of_simps)
  have "dom (metrics report) = {''block_diff'', ''active_peers'', ''rpc_errors'', ''disk_free_gb''}"
    by (simp add: r report_of_simps)
  moreover have "\<forall>key \<in> {''block_diff'', ''rpc_errors'', ''disk_free_gb'', ''active_peers''}.
                   \<exists>v. metrics_at report key = Inr v"
    by (simp add: metrics_at_def keys)
  moreover have "fst (handleCriticalStatus config' w' report s2) \<noteq> Some (OutOfRange key)"
    for config' w' s2 key
    by (rule escalation_no_OutOfRange [OF keys])
  ultimately show ?thesis
    by blast
qed

theorem runFullCheck_metrics_keys_witness:
  "\<exists>report s'. runFullCheck config0 world_disk_low hc0 = (Inr report, s') \<and>
     \<not> overall_ok report \<and>
     dom (metrics report) = {''block_diff'', ''active_peers'', ''rpc_errors'', ''disk_free_gb''} \<and>
     fst (handleCriticalStatus config0 world_disk_low report s') = None"
proof -
  obtain report s' where run: "runFullCheck config0 world_disk_low hc0 = (Inr report, s')"
    by (simp add: probe_defs input_defs)
  have bad: "\<not> overall_ok report"
    using run by (auto simp: probe_defs input_defs)
  have "fst (handleCriticalStatus config0 world_disk_low report s') = None"
    using run
    apply (simp add: probe_defs input_defs)
    apply (erule conjE)
    apply hypsubst
    apply (simp add: handleCriticalStatus_def metrics_at_def)
    apply (simp add: alerts_emit_def emit_def registered_def touch_def)
    apply (simp add: rotate_then_reconnect_def metrics_at_def call_rotateLogs_def)
    apply (simp add: reconnect_peers_def metrics_at_def call_admin_addPeer_def)
    done
  then have esc: "fst (handleCriticalStatus config0 world_disk_low report s') = None" .
  from runFullCheck_metrics_keys [OF run]
  have "dom (metrics report) = {''block_diff'', ''active_peers'', ''rpc_errors'', ''disk_free_gb''}"
    by (rule conjunct1)
  with run bad esc show ?thesis
    by (intro exI conjI)
qed

section \<open>Claims about the block-sync probe\<close>

lemma checkBlockSync_emitted:
  assumes "eth_blockNumber (client w) = Inr lb" and "fetchNetworkBlock w = Inr nb"
  shows "emitted (trace (snd (checkBlockSync w s))) =
           emitted (trace s) @
           (if MAX_BLOCK_LAG < nb - lb
            then [\<lparr>type = ''block_sync_lag'', severity = Warning,
                   details = [(''local'', UInt lb), (''network'', UInt nb)]\<rparr>]
            else [])"
  by (simp add: checkBlockSync_eq checkBlockSync_try_eq assms Let_def alerts_emit_history
      gauge_Set_simps split: option.splits thrown.splits)

lemma u64_behind:
  fixes lb nb :: u64
  assumes "nb < lb"
  shows "unat (nb - lb) = 2 ^ 64 - (unat lb - unat nb)"
proof -
  have "unat nb < unat lb"
    using assms by (simp add: word_less_nat_alt)
  moreover have "unat lb < 2 ^ 64"
    using unsigned_less [of lb] by simp
  ultimately show ?thesis
    by (simp add: unat_sub_if_size word_size)
qed

text \<open>
  Claim C4. After two successful block fetches the block-sync probe hands exactly one
  alert to the hub when the lag \<open>networkBlock - localBlock\<close>, as the code computes it on
  unsigned 64-bit heights, is above \<open>MAX_BLOCK_LAG = 50\<close>: type \<open>block_sync_lag\<close>,
  severity \<open>Warning\<close>, details \<open>local\<close> and \<open>network\<close> the two heights fetched. When the
  lag is at most 50 it hands over none.
\<close>

theorem checkBlockSync_lag_alert:
  assumes "eth_blockNumber (client w) = Inr localBlock"
    and "fetchNetworkBlock w = Inr networkBlock"
  shows "unat MAX_BLOCK_LAG = 50 \<and>
         emitted (trace (snd (checkBlockSync w s))) =
           emitted (trace s) @
           (if unat (networkBlock - localBlock) > 50
            then [\<lparr>type = ''block_sync_lag'', severity = Warning,
                   details = [(''local'', UInt localBlock), (''network'', UInt networkBlock)]\<rparr>]
            else [])"
proof -
  have "(MAX_BLOCK_LAG < networkBlock - localBlock) = (unat (networkBlock - localBlock) > 50)"
    by (simp add: MAX_BLOCK_LAG_def word_less_nat_alt)
  then show ?thesis
    by (simp add: checkBlockSync_emitted [OF assms] MAX_BLOCK_LAG_def)
qed

theorem checkBlockSync_lag_alert_witness:
  "emitted (trace (snd (checkBlockSync world_lagging hc0))) =
     [\<lparr>type = ''block_sync_lag'', severity = Warning,
       details = [(''local'', UInt 100), (''network'', UInt 200)]\<rparr>] \<and>
   emitted (trace (snd (checkBlockSync world0 hc0))) = []"
proof -
  have l: "eth_blockNumber (client world_lagging) = Inr 100" "fetchNetworkBlock world_lagging = Inr 200"
    and h: "eth_blockNumber (client world0) = Inr 100" "fetchNetworkBlock world0 = Inr 120"
    by (simp_all add: input_defs)
  have t: "trace hc0 = []"
    by (simp add: input_defs)
  from checkBlockSync_lag_alert [OF l, of hc0] checkBlockSync_lag_alert [OF h, of hc0]
  show ?thesis
    by (simp add: t)
qed

text \<open>
  The conversion to \<^verbatim>\<open>double\<close> keeps a 64-bit value within 1024 of itself: at most 11
  low bits are rounded away.
\<close>

lemma double_exponent_bound: "n < 2 ^ (53 + k) \<Longrightarrow> double_exponent n \<le> k"
proof (induction k arbitrary: n)
  case 0
  then show ?case by (simp add: double_exponent.simps)
next
  case (Suc k)
  from Suc.prems have "n < 2 * 2 ^ (53 + k)"
    by (simp only: add_Suc_right power_Suc)
  then have "n div 2 < 2 ^ (53 + k)"
    by arith
  then have "double_exponent (n div 2) \<le> k"
    by (rule Suc.IH)
  then show ?case
    by (subst double_exponent.simps) simp
qed

lemma double_of_nat_error: "2 * \<bar>double_of_nat n - of_nat n\<bar> \<le> 2 ^ double_exponent n"
proof -
  let ?e = "double_exponent n"
  let ?q = "n div 2 ^ ?e" and ?r = "n mod 2 ^ ?e"
  have n: "n = ?q * 2 ^ ?e + ?r"
    by (rule div_mult_mod_eq [symmetric])
  have r: "?r < 2 ^ ?e"
    by simp
  show ?thesis
  proof (cases "2 * ?r < 2 ^ ?e \<or> (2 * ?r = 2 ^ ?e \<and> even ?q)")
    case True
    then have "double_of_nat n = of_nat (?q * 2 ^ ?e)"
      by (simp add: double_of_nat_def Let_def)
    moreover have "(of_nat n :: rat) = of_nat (?q * 2 ^ ?e) + of_nat ?r"
      by (subst n) (simp only: of_nat_add)
    ultimately have "\<bar>double_of_nat n - of_nat n\<bar> = of_nat ?r"
      by simp
    moreover have "2 * ?r \<le> 2 ^ ?e"
      using True by auto
    then have "(2 :: rat) * of_nat ?r \<le> 2 ^ ?e"
      by (metis of_nat_le_iff of_nat_mult of_nat_numeral of_nat_power)
    ultimately show ?thesis
      by simp
  next
    case False
    then have "double_of_nat n = of_nat ((?q + 1) * 2 ^ ?e)"
      by (simp add: double_of_nat_def Let_def)
    moreover have "(of_nat n :: rat) = of_nat (?q * 2 ^ ?e) + of_nat ?r"
      by (subst n) (simp only: of_nat_add)
    ultimately have d: "double_of_nat n - of_nat n = 2 ^ ?e - of_nat ?r"
      by (simp add: algebra_simps)
    have "2 ^ ?e \<le> 2 * ?r"
      using False by auto
    then have ge: "(2 :: rat) ^ ?e \<le> 2 * of_nat ?r"
      by (metis of_nat_le_iff of_nat_mult of_nat_numeral of_nat_power)
    have "(of_nat ?r :: rat) < 2 ^ ?e"
      using r by (metis of_nat_less_iff of_nat_numeral of_nat_power)
    with ge d show ?thesis
      by simp
  qed
qed

lemma u64_number_near: "\<bar>u64_number x - of_nat (unat x)\<bar> \<le> 1024"
proof -
  have "unat x < 2 ^ (53 + 11)"
    using unsigned_less [of x] by simp
  then have "double_exponent (unat x) \<le> 11"
    by (rule double_exponent_bound)
  then have "(2 :: rat) ^ double_exponent (unat x) \<le> 2 ^ 11"
    by (intro power_increasing) simp_all
  with double_of_nat_error [of "unat x"] show ?thesis
    by (simp add: u64_number_def)
qed

lemma double_max_u64: "double_of_nat 18446744073709551615 = 18446744073709551616"
  by (simp add: double_of_nat_def double_exponent.simps Let_def)

lemma u64_minus_one: "unat (- 1 :: u64) = 18446744073709551615"
  using u64_behind [of 0 1] by simp

text \<open>
  Claim C10, as the code has it. Heights are unsigned 64-bit and the lag is their
  difference modulo \<open>2 ^ 64\<close>. When the local head is ahead of the reference head by
  \<open>d\<close> blocks, the lag is \<open>2 ^ 64 - d\<close>. For \<open>d < 2 ^ 64 - 50\<close> that is above
  \<open>MAX_BLOCK_LAG\<close> and the probe hands a \<open>block_sync_lag\<close> warning to the hub, although
  the node is not behind; for \<open>d \<ge> 2 ^ 64 - 50\<close> the lag is at most 50 and there is no
  alert. A report of that cycle carries as \<open>block_diff\<close> the wrapped lag converted to
  \<^verbatim>\<open>double\<close>: within 1024 of the wrapped value, and not always equal to it.
\<close>

theorem checkBlockSync_local_ahead:
  assumes "eth_blockNumber (client w) = Inr localBlock"
    and "fetchNetworkBlock w = Inr networkBlock"
    and "networkBlock < localBlock"
  shows "unat (networkBlock - localBlock) = 2 ^ 64 - (unat localBlock - unat networkBlock) \<and>
         (unat localBlock - unat networkBlock < 2 ^ 64 - 50 \<longrightarrow>
            MAX_BLOCK_LAG < networkBlock - localBlock \<and>
            emitted (trace (snd (checkBlockSync w s))) =
              emitted (trace s) @
              [\<lparr>type = ''block_sync_lag'', severity = Warning,
                details = [(''local'', UInt localBlock), (''network'', UInt networkBlock)]\<rparr>]) \<and>
         (2 ^ 64 - 50 \<le> unat localBlock - unat networkBlock \<longrightarrow>
            \<not> MAX_BLOCK_LAG < networkBlock - localBlock \<and>
            emitted (trace (snd (checkBlockSync w s))) = emitted (trace s)) \<and>
         (\<forall>report s'. runFullCheck config w s = (Inr report, s') \<longrightarrow>
            metrics report ''block_diff'' =
              Some (double_of_nat (2 ^ 64 - (unat localBlock - unat networkBlock)))) \<and>
         \<bar>double_of_nat (2 ^ 64 - (unat localBlock - unat networkBlock)) -
           of_nat (2 ^ 64 - (unat localBlock - unat networkBlock))\<bar> \<le> 1024"
proof -
  let ?d = "unat localBlock - unat networkBlock"
  have wrapped: "unat (networkBlock - localBlock) = 2 ^ 64 - ?d"
    by (rule u64_behind [OF assms(3)])
  have lag: "(MAX_BLOCK_LAG < networkBlock - localBlock) = (50 < unat (networkBlock - localBlock))"
    by (simp add: MAX_BLOCK_LAG_def word_less_nat_alt)
  have near: "MAX_BLOCK_LAG < networkBlock - localBlock \<and>
      emitted (trace (snd (checkBlockSync w s))) =
        emitted (trace s) @
        [\<lparr>type = ''block_sync_lag'', severity = Warning,
          details = [(''local'', UInt localBlock), (''network'', UInt networkBlock)]\<rparr>]"
    if "?d < 2 ^ 64 - 50"
  proof -
    from that have "?d \<le> 2 ^ 64 - 51"
      by simp
    then have "50 < unat (networkBlock - localBlock)"
      unfolding wrapped by simp
    then have "MAX_BLOCK_LAG < networkBlock - localBlock"
      by (simp add: lag)
    then show ?thesis
      by (simp add: checkBlockSync_emitted [OF assms(1,2)])
  qed
  have far: "\<not> MAX_BLOCK_LAG < networkBlock - localBlock \<and>
      emitted (trace (snd (checkBlockSync w s))) = emitted (trace s)"
    if "2 ^ 64 - 50 \<le> ?d"
  proof -
    from that have "\<not> 50 < unat (networkBlock - localBlock)"
      unfolding wrapped by simp
    then have "\<not> MAX_BLOCK_LAG < networkBlock - localBlock"
      by (simp add: lag)
    then show ?thesis
      by (simp add: checkBlockSync_emitted [OF assms(1,2)])
  qed
  have stored: "metrics report ''block_diff'' = Some (double_of_nat (2 ^ 64 - ?d))"
    if run: "runFullCheck config w s = (Inr report, s')" for report s'
  proof -
    from runFullCheck_InrD [OF run] obtain bv pv rv dv where
      b: "fst (checkBlockSync w s) = Inr bv" and r: "report = report_of (now w) config bv pv rv dv"
      by blast
    from b have "checkBlockSync w s = (Inr (fst bv, snd bv), snd (checkBlockSync w s))"
      by (simp add: prod_eq_iff)
    from checkBlockSync_Inr [OF this] have "fst bv = localBlock" "snd bv = networkBlock"
      by (simp_all add: assms(1,2))
    then show ?thesis
      by (simp add: r report_of_simps u64_number_def wrapped)
  qed
  have rounded: "\<bar>double_of_nat (2 ^ 64 - ?d) - of_nat (2 ^ 64 - ?d)\<bar> \<le> 1024"
    using u64_number_near [of "networkBlock - localBlock"]
    by (simp only: u64_number_def wrapped)
  have near': "?d < 2 ^ 64 - 50 \<longrightarrow>
      MAX_BLOCK_LAG < networkBlock - localBlock \<and>
      emitted (trace (snd (checkBlockSync w s))) =
        emitted (trace s) @
        [\<lparr>type = ''block_sync_lag'', severity = Warning,
          details = [(''local'', UInt localBlock), (''network'', UInt networkBlock)]\<rparr>]"
    using near by blast
  have far': "2 ^ 64 - 50 \<le> ?d \<longrightarrow>
      \<not> MAX_BLOCK_LAG < networkBlock - localBlock \<and>
      emitted (trace (snd (checkBlockSync w s))) = emitted (trace s)"
    using far by blast
  have stored': "\<forall>report s'. runFullCheck config w s = (Inr report, s') \<longrightarrow>
      metrics report ''block_diff'' = Some (double_of_nat (2 ^ 64 - ?d))"
    using stored by blast
  from wrapped near' far' stored' rounded show ?thesis
    by (intro conjI)
qed

theorem checkBlockSync_local_ahead_witness:
  "unat (120 - 121 :: u64) = 2 ^ 64 - 1 \<and>
   emitted (trace (snd (checkBlockSync world_ahead hc0))) =
     [\<lparr>type = ''block_sync_lag'', severity = Warning,
       details = [(''local'', UInt 121), (''network'', UInt 120)]\<rparr>] \<and>
   (\<exists>report s'. runFullCheck config0 world_ahead hc0 = (Inr report, s') \<and>
      metrics report ''block_diff'' = Some (2 ^ 64)) \<and>
   emitted (trace (snd (checkBlockSync world_far_ahead hc0))) = []"
proof -
  have a: "eth_blockNumber (client world_ahead) = Inr 121" "fetchNetworkBlock world_ahead = Inr 120"
    "(120 :: u64) < 121"
    by (simp_all add: input_defs)
  have f: "eth_blockNumber (client world_far_ahead) = Inr 18446744073709551615"
    "fetchNetworkBlock world_far_ahead = Inr 0" "(0 :: u64) < 18446744073709551615"
    by (simp_all add: input_defs)
  have t: "trace hc0 = []"
    by (simp add: input_defs)
  have d: "unat (121 :: u64) - unat (120 :: u64) = 1"
    "unat (18446744073709551615 :: u64) - unat (0 :: u64) = 18446744073709551615"
    by simp_all
  obtain report s' where run: "runFullCheck config0 world_ahead hc0 = (Inr report, s')"
    by (simp add: probe_defs input_defs)
  note ahead = checkBlockSync_local_ahead [OF a, of hc0 config0]
  note far = checkBlockSync_local_ahead [OF f, of hc0 config0]
  from ahead have "unat (120 - 121 :: u64) = 2 ^ 64 - 1"
    by (simp only: d)
  moreover from ahead
  have "emitted (trace (snd (checkBlockSync world_ahead hc0))) =
     [\<lparr>type = ''block_sync_lag'', severity = Warning,
       details = [(''local'', UInt 121), (''network'', UInt 120)]\<rparr>]"
    by (simp add: d t)
  moreover from ahead run have "metrics report ''block_diff'' = Some (2 ^ 64)"
    by (simp add: d double_max_u64)
  moreover from far have "emitted (trace (snd (checkBlockSync world_far_ahead hc0))) = []"
    by (simp add: d t)
  ultimately show ?thesis
    using run by (intro exI conjI)
qed

text \<open>
  The claim as stated fails in two places. For every input with the local head ahead it
  promises an alert: at local head \<open>2 ^ 64 - 1\<close> and reference head 0 the lag wraps to 1
  and no alert is handed over. And it has \<open>block_diff\<close> record the wrapped value: with
  the local head one block ahead (121 against 120) the wrapped lag is \<open>2 ^ 64 - 1\<close> and
  the metric, a \<^verbatim>\<open>double\<close>, is \<open>2 ^ 64\<close>.
\<close>

theorem checkBlockSync_local_ahead_counterexample:
  "eth_blockNumber (client world_far_ahead) = Inr 18446744073709551615 \<and>
   fetchNetworkBlock world_far_ahead = Inr 0 \<and>
   (0 :: u64) < 18446744073709551615 \<and>
   \<not> MAX_BLOCK_LAG < (0 :: u64) - 18446744073709551615 \<and>
   emitted (trace (snd (checkBlockSync world_far_ahead hc0))) = [] \<and>
   metrics (projr (fst (runFullCheck config0 world_far_ahead hc0))) ''block_diff'' = Some 1 \<and>
   unat (120 - 121 :: u64) = 18446744073709551615 \<and>
   metrics (projr (fst (runFullCheck config0 world_ahead hc0))) ''block_diff'' =
     Some 18446744073709551616"
proof -
  have a: "eth_blockNumber (client world_far_ahead) = Inr 18446744073709551615"
    "fetchNetworkBlock world_far_ahead = Inr 0"
    by (simp_all add: input_defs)
  have lag: "\<not> MAX_BLOCK_LAG < (0 :: u64) - 18446744073709551615"
    by (simp add: MAX_BLOCK_LAG_def)
  have "emitted (trace (snd (checkBlockSync world_far_ahead hc0))) = []"
    by (simp add: checkBlockSync_emitted [OF a] MAX_BLOCK_LAG_def) (simp add: input_defs)
  moreover have "metrics (projr (fst (runFullCheck config0 world_far_ahead hc0))) ''block_diff'' = Some 1"
    by (simp add: probe_defs input_defs)
  moreover have "(0 :: u64) < 18446744073709551615"
    by simp
  moreover have "unat (120 - 121 :: u64) = 18446744073709551615"
    by (simp add: u64_minus_one)
  moreover have "metrics (projr (fst (runFullCheck config0 world_ahead hc0))) ''block_diff'' =
     Some 18446744073709551616"
    by (simp add: probe_defs input_defs u64_minus_one double_max_u64)
  ultimately show ?thesis
    using a lag by (intro conjI)
qed

section \<open>Claims about the alert hub\<close>

lemma registered_subscribe:
  "registered (subscribe t h tbl) k = (if k = t then registered tbl t @ [h] else registered tbl k)"
  by (simp add: subscribe_def registered_def)

lemma invoke_all_reached:
  "invoked (snd (invoke_all hs a)) =
     map (\<lambda>h. (h, a)) (takeWhile (\<lambda>h. hcall h a = None) hs @
                          take 1 (dropWhile (\<lambda>h. hcall h a = None) hs))"
  by (induction hs) (auto split: option.splits prod.splits)

lemma invoke_all_result:
  "fst (invoke_all hs a) =
     (case dropWhile (\<lambda>h. hcall h a = None) hs of [] \<Rightarrow> None | h # rest \<Rightarrow> hcall h a)"
  by (induction hs) (auto split: option.splits prod.splits)

lemma invoke_all_thrower:
  assumes "\<forall>g \<in> set pre. hcall g a = None" and "hcall h a = Some t"
  shows "fst (invoke_all (pre @ h # post) a) = Some t \<and>
         invoked (snd (invoke_all (pre @ h # post) a)) = map (\<lambda>g. (g, a)) (pre @ [h])"
  using assms by (induction pre) (auto split: option.splits prod.splits)

text \<open>
  Claim C5, as the hub has it. \<open>emit\<close> invokes the handlers registered for the alert's
  type in the order of their subscription, each at most once, up to and including the
  first one that throws; that exception leaves \<open>emit\<close> and the handlers after it are not
  invoked. When none of them throws, each is invoked exactly once and \<open>emit\<close> returns. So
  two handlers subscribed to a type that had none are both invoked, once each and in
  subscription order, when the first returns; and an alert of a type without handlers
  invokes nothing and is no error.
\<close>

theorem emit_delivery:
  "invoked (snd (fst (emit tbl alert))) =
     map (\<lambda>h. (h, alert))
       (takeWhile (\<lambda>h. hcall h alert = None) (registered tbl (type alert)) @
        take 1 (dropWhile (\<lambda>h. hcall h alert = None) (registered tbl (type alert)))) \<and>
   fst (fst (emit tbl alert)) =
     (case dropWhile (\<lambda>h. hcall h alert = None) (registered tbl (type alert)) of
        [] \<Rightarrow> None
      | h # rest \<Rightarrow> hcall h alert) \<and>
   (\<forall>pre h post t.
      registered tbl (type alert) = pre @ h # post \<and>
      (\<forall>g \<in> set pre. hcall g alert = None) \<and> hcall h alert = Some t \<longrightarrow>
      fst (fst (emit tbl alert)) = Some t \<and>
      invoked (snd (fst (emit tbl alert))) = map (\<lambda>g. (g, alert)) (pre @ [h])) \<and>
   ((\<forall>h \<in> set (registered tbl (type alert)). hcall h alert = None) \<longrightarrow>
      fst (fst (emit tbl alert)) = None \<and>
      invoked (snd (fst (emit tbl alert))) = map (\<lambda>h. (h, alert)) (registered tbl (type alert))) \<and>
   (registered tbl (type alert) = [] \<and> hcall h1 alert = None \<longrightarrow>
      invoked (snd (fst (emit (subscribe (type alert) h2 (subscribe (type alert) h1 tbl)) alert))) =
        [(h1, alert), (h2, alert)]) \<and>
   (registered tbl (type alert) = [] \<longrightarrow>
      fst (fst (emit tbl alert)) = None \<and> invoked (snd (fst (emit tbl alert))) = [])"
proof -
  let ?hs = "registered tbl (type alert)"
  have reached: "invoked (snd (fst (emit tbl alert))) =
     map (\<lambda>h. (h, alert))
       (takeWhile (\<lambda>h. hcall h alert = None) ?hs @
        take 1 (dropWhile (\<lambda>h. hcall h alert = None) ?hs))"
    by (simp only: emit_def fst_conv invoke_all_reached)
  have result: "fst (fst (emit tbl alert)) =
     (case dropWhile (\<lambda>h. hcall h alert = None) ?hs of [] \<Rightarrow> None | h # rest \<Rightarrow> hcall h alert)"
    by (simp only: emit_def fst_conv invoke_all_result)
  have thrower: "fst (fst (emit tbl alert)) = Some t \<and>
      invoked (snd (fst (emit tbl alert))) = map (\<lambda>g. (g, alert)) (pre @ [h])"
    if "?hs = pre @ h # post \<and> (\<forall>g \<in> set pre. hcall g alert = None) \<and> hcall h alert = Some t"
    for pre h post t
  proof -
    from that have hs: "?hs = pre @ h # post" and pre: "\<forall>g \<in> set pre. hcall g alert = None"
      and h: "hcall h alert = Some t"
      by simp_all
    from invoke_all_thrower [OF pre h, of post] show ?thesis
      by (simp only: emit_def fst_conv hs)
  qed
  have returning: "fst (fst (emit tbl alert)) = None \<and>
      invoked (snd (fst (emit tbl alert))) = map (\<lambda>h. (h, alert)) ?hs"
    if "\<forall>h \<in> set ?hs. hcall h alert = None"
    using invoke_all_returning [OF that] by (simp add: emit_def)
  have two: "invoked (snd (fst (emit (subscribe (type alert) h2 (subscribe (type alert) h1 tbl)) alert))) =
        [(h1, alert), (h2, alert)]"
    if "?hs = []" and "hcall h1 alert = None"
    using that by (simp add: emit_def registered_subscribe split: option.splits)
  have none: "fst (fst (emit tbl alert)) = None \<and> invoked (snd (fst (emit tbl alert))) = []"
    if "?hs = []"
    using that by (simp add: emit_def)
  have thrower': "\<forall>pre h post t.
      ?hs = pre @ h # post \<and>
      (\<forall>g \<in> set pre. hcall g alert = None) \<and> hcall h alert = Some t \<longrightarrow>
      fst (fst (emit tbl alert)) = Some t \<and>
      invoked (snd (fst (emit tbl alert))) = map (\<lambda>g. (g, alert)) (pre @ [h])"
    using thrower by blast
  have returning': "(\<forall>h \<in> set ?hs. hcall h alert = None) \<longrightarrow>
      fst (fst (emit tbl alert)) = None \<and>
      invoked (snd (fst (emit tbl alert))) = map (\<lambda>h. (h, alert)) ?hs"
    using returning by blast
  have two': "?hs = [] \<and> hcall h1 alert = None \<longrightarrow>
      invoked (snd (fst (emit (subscribe (type alert) h2 (subscribe (type alert) h1 tbl)) alert))) =
        [(h1, alert), (h2, alert)]"
    using two by blast
  have none': "?hs = [] \<longrightarrow>
      fst (fst (emit tbl alert)) = None \<and> invoked (snd (fst (emit tbl alert))) = []"
    using none by blast
  from reached result thrower' returning' two' none' show ?thesis
    by (intro conjI)
qed

theorem emit_delivery_witness:
  "invoked (snd (fst (emit (subscribe ''low_disk_space'' handler_b
                             (subscribe ''low_disk_space'' handler_a Map.empty)) alert0))) =
     [(handler_a, alert0), (handler_b, alert0)] \<and>
   fst (fst (emit (subscribe ''low_peer_count'' handler_a Map.empty) alert0)) = None \<and>
   invoked (snd (fst (emit (subscribe ''low_peer_count'' handler_a Map.empty) alert0))) = [] \<and>
   fst (fst (emit (subscribe ''low_disk_space'' handler_b
                     (subscribe ''low_disk_space'' handler_bad
                        (subscribe ''low_disk_space'' handler_a Map.empty))) alert0)) =
     Some (StdException ''handler failed'') \<and>
   invoked (snd (fst (emit (subscribe ''low_disk_space'' handler_b
                             (subscribe ''low_disk_space'' handler_bad
                                (subscribe ''low_disk_space'' handler_a Map.empty))) alert0))) =
     [(handler_a, alert0), (handler_bad, alert0)]"
proof -
  let ?three = "subscribe ''low_disk_space'' handler_b
                  (subscribe ''low_disk_space'' handler_bad
                     (subscribe ''low_disk_space'' handler_a Map.empty))"
  have t: "type alert0 = ''low_disk_space''"
    by (simp add: alert0_def)
  have e: "registered Map.empty (type alert0) = []"
    "registered (subscribe ''low_peer_count'' handler_a Map.empty) (type alert0) = []"
    by (simp_all add: registered_def subscribe_def t)
  have a: "hcall handler_a alert0 = None"
    by (simp add: handler_a_def)
  have three: "registered ?three (type alert0) = [handler_a] @ handler_bad # [handler_b] \<and>
      (\<forall>g \<in> set [handler_a]. hcall g alert0 = None) \<and>
      hcall handler_bad alert0 = Some (StdException ''handler failed'')"
    by (simp add: registered_def subscribe_def t handler_a_def handler_bad_def)
  from emit_delivery [of ?three alert0 handler_a handler_b]
  have "\<forall>pre h post t.
      registered ?three (type alert0) = pre @ h # post \<and>
      (\<forall>g \<in> set pre. hcall g alert0 = None) \<and> hcall h alert0 = Some t \<longrightarrow>
      fst (fst (emit ?three alert0)) = Some t \<and>
      invoked (snd (fst (emit ?three alert0))) = map (\<lambda>g. (g, alert0)) (pre @ [h])"
    by (elim conjE)
  with three have bad: "fst (fst (emit ?three alert0)) = Some (StdException ''handler failed'') \<and>
      invoked (snd (fst (emit ?three alert0))) = map (\<lambda>g. (g, alert0)) ([handler_a] @ [handler_bad])"
    by blast
  from emit_delivery [of Map.empty alert0 handler_a handler_b]
    emit_delivery [of "subscribe ''low_peer_count'' handler_a Map.empty" alert0 handler_a handler_b]
  have "invoked (snd (fst (emit (subscribe ''low_disk_space'' handler_b
                             (subscribe ''low_disk_space'' handler_a Map.empty)) alert0))) =
     [(handler_a, alert0), (handler_b, alert0)] \<and>
   fst (fst (emit (subscribe ''low_peer_count'' handler_a Map.empty) alert0)) = None \<and>
   invoked (snd (fst (emit (subscribe ''low_peer_count'' handler_a Map.empty) alert0))) = []"
    using e a unfolding t by simp
  with bad show ?thesis
    by simp
qed

text \<open>
  The claim as stated, for every registration table, fails on a table whose first
  handler throws: the second handler is registered for the type and is not invoked.
\<close>

theorem emit_delivery_counterexample:
  "registered (subscribe ''low_disk_space'' handler_a
                 (subscribe ''low_disk_space'' handler_bad Map.empty)) (type alert0) =
     [handler_bad, handler_a] \<and>
   invoked (snd (fst (emit (subscribe ''low_disk_space'' handler_a
                             (subscribe ''low_disk_space'' handler_bad Map.empty)) alert0))) =
     [(handler_bad, alert0)] \<and>
   fst (fst (emit (subscribe ''low_disk_space'' handler_a
                     (subscribe ''low_disk_space'' handler_bad Map.empty)) alert0)) =
     Some (StdException ''handler failed'')"
  by (simp add: emit_def registered_def subscribe_def alert0_def handler_bad_def handler_a_def)

section \<open>Claims about escalation\<close>

text \<open>
  Claim C6, as the code has it. For a report that carries the four metrics,
  \<open>handleCriticalStatus\<close> always hands the composite \<open>node_unhealthy\<close> alert to the hub.
  It rotates the logs, once, exactly when that emission returned and
  \<open>disk_free_gb < 5\<close>; it asks to re-add the bootstrap peers, once, exactly when the
  emission returned, the rotation (if one was due) returned, and \<open>active_peers < 3\<close>. So
  with \<open>disk_free_gb = 3\<close> there is exactly one rotation call when the emission returns,
  and with \<open>disk_free_gb = 10\<close> there is none in any case.
\<close>

theorem handleCriticalStatus_actions:
  assumes "metrics report ''block_diff'' = Some block_diff"
    and "metrics report ''rpc_errors'' = Some rpc_errors"
    and "metrics report ''disk_free_gb'' = Some disk_free_gb"
    and "metrics report ''active_peers'' = Some active_peers"
  shows "let alert = \<lparr>type = ''node_unhealthy'', severity = Critical,
                       details = [(''block_diff'', Number block_diff),
                                  (''rpc_errors'', Number rpc_errors)]\<rparr>;
             delivered = (fst (alerts_emit alert s) = None);
             s' = snd (handleCriticalStatus config w report s)
         in emitted (trace s') = emitted (trace s) @ [alert] \<and>
            rotations (trace s') =
              rotations (trace s) + (if delivered \<and> disk_free_gb < 5 then 1 else 0) \<and>
            addPeers (trace s') =
              addPeers (trace s) @
              (if delivered \<and> (disk_free_gb < 5 \<longrightarrow> rotateLogs w = None) \<and> active_peers < 3
               then [bootstrap_nodes config] else [])"
  by (simp add: handleCriticalStatus_eq [OF assms(1,2)] rotate_then_reconnect_eq [OF assms(3)]
      reconnect_peers_eq [OF assms(4)] Let_def alerts_emit_history history_append
      split: option.splits)

theorem handleCriticalStatus_actions_witness:
  "rotations (trace (snd (handleCriticalStatus config0 world0 report_disk3 hc0))) = 1 \<and>
   rotations (trace (snd (handleCriticalStatus config0 world0 report_disk10 hc0))) = 0 \<and>
   rotations (trace (snd (handleCriticalStatus config0 world0 report_disk10 hc_bad))) = 0 \<and>
   addPeers (trace (snd (handleCriticalStatus config0 world0 report_disk3 hc0))) =
     [[''enode://a'', ''enode://b'']]"
proof -
  have m3: "metrics report_disk3 ''block_diff'' = Some 20" "metrics report_disk3 ''rpc_errors'' = Some 0"
    "metrics report_disk3 ''disk_free_gb'' = Some 3" "metrics report_disk3 ''active_peers'' = Some 2"
    and m10: "metrics report_disk10 ''block_diff'' = Some 20" "metrics report_disk10 ''rpc_errors'' = Some 0"
    "metrics report_disk10 ''disk_free_gb'' = Some 10" "metrics report_disk10 ''active_peers'' = Some 2"
    by (simp_all add: report_disk3_def report_disk10_def)
  have d: "fst (alerts_emit \<lparr>type = ''node_unhealthy'', severity = Critical,
                 details = [(''block_diff'', Number 20), (''rpc_errors'', Number 0)]\<rparr> hc0) = None"
    by (simp add: alerts_emit_def emit_def registered_def hc0_def)
  have t: "trace hc0 = []" "trace hc_bad = []" "rotateLogs world0 = None"
    "bootstrap_nodes config0 = [''enode://a'', ''enode://b'']"
    by (simp_all add: hc0_def hc_bad_def world0_def config0_def)
  from handleCriticalStatus_actions [OF m3, of hc0 config0 world0]
    handleCriticalStatus_actions [OF m10, of hc0 config0 world0]
    handleCriticalStatus_actions [OF m10, of hc_bad config0 world0]
  show ?thesis
    by (simp add: Let_def d t)
qed

text \<open>
  The claim as stated, with each action performed even if an earlier one fails, does not
  hold: no statement of \<open>handleCriticalStatus\<close> is inside a \<^verbatim>\<open>try\<close>. With a handler
  subscribed to \<open>node_unhealthy\<close> that throws, a report with \<open>disk_free_gb = 3\<close> and
  \<open>active_peers = 2\<close> leads to no rotation and no request for peers.
\<close>

theorem handleCriticalStatus_actions_counterexample:
  "overall_ok report_disk3 = False \<and>
   metrics report_disk3 ''disk_free_gb'' = Some 3 \<and>
   metrics report_disk3 ''active_peers'' = Some 2 \<and>
   fst (handleCriticalStatus config0 world0 report_disk3 hc_bad) =
     Some (Thrown (StdException ''handler failed'')) \<and>
   rotations (trace (snd (handleCriticalStatus config0 world0 report_disk3 hc_bad))) = 0 \<and>
   addPeers (trace (snd (handleCriticalStatus config0 world0 report_disk3 hc_bad))) = []"
proof -
  have m3: "metrics report_disk3 ''block_diff'' = Some 20" "metrics report_disk3 ''rpc_errors'' = Some 0"
    "metrics report_disk3 ''disk_free_gb'' = Some 3" "metrics report_disk3 ''active_peers'' = Some 2"
    "overall_ok report_disk3 = False"
    by (simp_all add: report_disk3_def)
  have e: "alerts_emit \<lparr>type = ''node_unhealthy'', severity = Critical,
                 details = [(''block_diff'', Number 20), (''rpc_errors'', Number 0)]\<rparr> hc_bad =
            (Some (StdException ''handler failed''),
             hc_bad\<lparr>trace := [Emitted \<lparr>type = ''node_unhealthy'', severity = Critical,
                 details = [(''block_diff'', Number 20), (''rpc_errors'', Number 0)]\<rparr>,
                   Invoked handler_bad \<lparr>type = ''node_unhealthy'', severity = Critical,
                 details = [(''block_diff'', Number 20), (''rpc_errors'', Number 0)]\<rparr>]\<rparr>)"
    by (simp add: alerts_emit_def emit_def registered_def touch_def hc_bad_def hc0_def
        subscribe_def handler_bad_def)
  have "handleCriticalStatus config0 world0 report_disk3 hc_bad =
          (Some (Thrown (StdException ''handler failed'')),
           hc_bad\<lparr>trace := [Emitted \<lparr>type = ''node_unhealthy'', severity = Critical,
                 details = [(''block_diff'', Number 20), (''rpc_errors'', Number 0)]\<rparr>,
                   Invoked handler_bad \<lparr>type = ''node_unhealthy'', severity = Critical,
                 details = [(''block_diff'', Number 20), (''rpc_errors'', Number 0)]\<rparr>]\<rparr>)"
    by (simp add: handleCriticalStatus_eq [OF m3(1,2)] e)
  then show ?thesis
    by (simp add: m3)
qed

section \<open>Claims about the background worker\<close>

text \<open>The probes leave \<open>last_report_\<close> alone and never sleep.\<close>

lemma alerts_emit_keeps:
  "last_report (snd (alerts_emit a s)) = last_report s \<and>
   sleeps (trace (snd (alerts_emit a s))) = sleeps (trace s)"
  by (simp add: alerts_emit_last_report alerts_emit_history)

lemma checkBlockSync_keeps:
  "last_report (snd (checkBlockSync w s)) = last_report s \<and>
   sleeps (trace (snd (checkBlockSync w s))) = sleeps (trace s)"
  by (simp add: checkBlockSync_eq checkBlockSync_try_eq Let_def alerts_emit_keeps gauge_Set_simps
      split: sum.splits thrown.splits option.splits)

lemma checkPeerConnections_keeps:
  "last_report (snd (checkPeerConnections config w s)) = last_report s \<and>
   sleeps (trace (snd (checkPeerConnections config w s))) = sleeps (trace s)"
  by (simp add: checkPeerConnections_eq Let_def alerts_emit_keeps gauge_Set_simps
      split: sum.splits option.splits)

lemma checkRpcAvailability_keeps:
  "last_report (snd (checkRpcAvailability w s)) = last_report s \<and>
   sleeps (trace (snd (checkRpcAvailability w s))) = sleeps (trace s)"
  by (simp add: checkRpcAvailability_def Let_def gauge_Set_simps)

lemma checkDiskSpace_keeps:
  "last_report (snd (checkDiskSpace config w s)) = last_report s \<and>
   sleeps (trace (snd (checkDiskSpace config w s))) = sleeps (trace s)"
  by (simp add: checkDiskSpace_eq Let_def alerts_emit_keeps gauge_Set_simps
      split: sum.splits option.splits)

lemma runFullCheck_keeps:
  "last_report (snd (runFullCheck config w s)) = last_report s \<and>
   sleeps (trace (snd (runFullCheck config w s))) = sleeps (trace s)"
  by (simp add: runFullCheck_eq Let_def checkBlockSync_keeps checkPeerConnections_keeps
      checkRpcAvailability_keeps checkDiskSpace_keeps split: sum.splits)

lemma worker_Cons:
  "worker config (c # cs) s =
     (if shutdown_flag c then (Exited, s)
      else let r = runFullCheck config (world c) s
           in case fst r of
                Inl e \<Rightarrow> (Uncaught e, snd r)
              | Inr report \<Rightarrow>
                  (let s2 = (snd r)\<lparr>last_report := Some report\<rparr>;
                       h = (if \<not> overall_ok report
                            then handleCriticalStatus config (world c) report s2
                            else (None, s2))
                   in case fst h of
                        Some e \<Rightarrow> (Uncaught e, snd h)
                      | None \<Rightarrow> worker config cs ((snd h)\<lparr>trace := trace (snd h) @ [Sleep]\<rparr>)))"
  by (simp add: Let_def split: prod.splits sum.splits option.splits)

text \<open>
  Claim C2, as the code has it. The loop of the background worker has no \<^verbatim>\<open>try\<close>. In a
  cycle in which \<open>runFullCheck\<close> raises \<open>HealthCheckError\<close>, the error leaves the loop: the
  worker ends with it uncaught, in the state the failed check left, whatever cycles were
  still to come; the stored report is not replaced and the worker does not sleep.
\<close>

theorem worker_HealthCheckError:
  assumes "\<not> shutdown_flag c"
    and "fst (runFullCheck config (world c) s) = Inl (HealthCheckError msg)"
  shows "worker config (c # cs) s =
           (Uncaught (HealthCheckError msg), snd (runFullCheck config (world c) s)) \<and>
         last_report (snd (worker config (c # cs) s)) = last_report s \<and>
         sleeps (trace (snd (worker config (c # cs) s))) = sleeps (trace s)"
proof -
  have "worker config (c # cs) s =
      (Uncaught (HealthCheckError msg), snd (runFullCheck config (world c) s))"
    by (simp only: worker_Cons Let_def assms if_False sum.case)
  then show ?thesis
    by (simp add: runFullCheck_keeps)
qed

lemma sync_down_run:
  "fst (runFullCheck config0 world_sync_down hc0) =
     Inl (HealthCheckError ''Block sync check failed: timeout'')"
  by (simp add: probe_defs input_defs)

theorem worker_HealthCheckError_witness:
  "fst (worker config0 [\<lparr>shutdown_flag = False, world = world_sync_down\<rparr>] hc0) =
     Uncaught (HealthCheckError ''Block sync check failed: timeout'') \<and>
   sleeps (trace (snd (worker config0 [\<lparr>shutdown_flag = False, world = world_sync_down\<rparr>] hc0))) = 0"
proof -
  have "\<not> shutdown_flag \<lparr>shutdown_flag = False, world = world_sync_down\<rparr>"
    and "fst (runFullCheck config0 (world \<lparr>shutdown_flag = False, world = world_sync_down\<rparr>) hc0) =
           Inl (HealthCheckError ''Block sync check failed: timeout'')"
    by (simp_all add: sync_down_run)
  from worker_HealthCheckError [OF this, of "[]"]
  have "fst (worker config0 [\<lparr>shutdown_flag = False, world = world_sync_down\<rparr>] hc0) =
          Uncaught (HealthCheckError ''Block sync check failed: timeout'')"
    and "sleeps (trace (snd (worker config0 [\<lparr>shutdown_flag = False, world = world_sync_down\<rparr>] hc0))) =
          sleeps (trace hc0)"
    by (simp_all add: runFullCheck_keeps del: worker.simps)
  moreover have "sleeps (trace hc0) = 0"
    by (simp add: hc0_def)
  ultimately show ?thesis
    by (simp del: worker.simps)
qed

text \<open>
  The claim as stated, that a failed cycle never ends the loop, fails on a schedule of
  two cycles where the block fetch times out in the first and the node is in good health
  in the second: the worker ends in the first cycle, with the error uncaught, without
  having slept and without a report stored. (The same schedule without the failing cycle
  runs the healthy cycle, stores its report and sleeps.)
\<close>

theorem worker_survives_counterexample:
  "fst (worker config0 [\<lparr>shutdown_flag = False, world = world_sync_down\<rparr>,
                        \<lparr>shutdown_flag = False, world = world0\<rparr>] hc0) =
     Uncaught (HealthCheckError ''Block sync check failed: timeout'') \<and>
   sleeps (trace (snd (worker config0 [\<lparr>shutdown_flag = False, world = world_sync_down\<rparr>,
                                       \<lparr>shutdown_flag = False, world = world0\<rparr>] hc0))) = 0 \<and>
   last_report (snd (worker config0 [\<lparr>shutdown_flag = False, world = world_sync_down\<rparr>,
                                     \<lparr>shutdown_flag = False, world = world0\<rparr>] hc0)) = None \<and>
   fst (worker config0 [\<lparr>shutdown_flag = False, world = world0\<rparr>] hc0) = Running \<and>
   sleeps (trace (snd (worker config0 [\<lparr>shutdown_flag = False, world = world0\<rparr>] hc0))) = 1"
proof -
  have keeps: "last_report (snd (runFullCheck config0 world_sync_down hc0)) = None"
    "sleeps (trace (snd (runFullCheck config0 world_sync_down hc0))) = 0"
    by (simp_all add: runFullCheck_keeps) (simp_all add: hc0_def)
  have first: "worker config0 [\<lparr>shutdown_flag = False, world = world_sync_down\<rparr>,
                        \<lparr>shutdown_flag = False, world = world0\<rparr>] hc0 =
                 (Uncaught (HealthCheckError ''Block sync check failed: timeout''),
                  snd (runFullCheck config0 world_sync_down hc0))"
    by (simp only: worker_Cons Let_def sync_down_run cycle.simps if_False sum.case)
  obtain report s' where up: "runFullCheck config0 world0 hc0 = (Inr report, s')"
    by (simp add: probe_defs input_defs)
  have ok: "overall_ok report"
    using up by (auto simp: probe_defs input_defs)
  have "sleeps (trace (snd (runFullCheck config0 world0 hc0))) = 0"
    by (simp add: runFullCheck_keeps) (simp add: hc0_def)
  then have "sleeps (trace s') = 0"
    by (simp add: up)
  then have second: "fst (worker config0 [\<lparr>shutdown_flag = False, world = world0\<rparr>] hc0) = Running"
    "sleeps (trace (snd (worker config0 [\<lparr>shutdown_flag = False, world = world0\<rparr>] hc0))) = 1"
    by (simp_all add: worker_Cons Let_def up ok sleeps_append del: worker.simps(2))
  show ?thesis
    by (simp add: first keeps second del: worker.simps)
qed

section \<open>Claims about probe failures\<close>

text \<open>When no registered handler throws, every emission returns.\<close>

lemma alerts_emit_quiet:
  assumes "\<forall>k. \<forall>h \<in> set (registered (alerts s) k). \<forall>a. hcall h a = None"
  shows "fst (alerts_emit alert s) = None"
proof -
  have "\<forall>h \<in> set (registered (alerts s) (type alert)). hcall h alert = None"
    using assms by blast
  then show ?thesis
    by (simp add: alerts_emit_fst invoke_all_returning)
qed

lemma gauge_Set_quiet:
  assumes "\<forall>k. \<forall>h \<in> set (registered (alerts s) k). \<forall>a. hcall h a = None"
  shows "fst (alerts_emit alert (gauge_Set g v s)) = None"
  by (rule alerts_emit_quiet) (simp add: gauge_Set_simps assms)

lemma checkBlockSync_quiet:
  assumes "\<forall>k. \<forall>h \<in> set (registered (alerts s) k). \<forall>a. hcall h a = None"
    and "eth_blockNumber (client w) = Inr lb" and "fetchNetworkBlock w = Inr nb"
  shows "fst (checkBlockSync w s) = Inr (lb, nb)"
  by (simp add: checkBlockSync_eq checkBlockSync_try_eq assms(2,3) Let_def
      gauge_Set_quiet [OF assms(1)])

lemma checkPeerConnections_quiet:
  assumes "\<forall>k. \<forall>h \<in> set (registered (alerts s) k). \<forall>a. hcall h a = None"
    and "admin_peers (client w) = Inr peers"
  shows "\<exists>stats. fst (checkPeerConnections config w s) = Inr stats"
  by (simp add: checkPeerConnections_eq assms(2) Let_def gauge_Set_quiet [OF assms(1)])

lemma checkDiskSpace_quiet:
  assumes "\<forall>k. \<forall>h \<in> set (registered (alerts s) k). \<forall>a. hcall h a = None"
    and "fs_space w (chaindata_path config) = Inr free"
  shows "\<exists>status. fst (checkDiskSpace config w s) = Inr status"
  by (simp add: checkDiskSpace_eq assms(2) Let_def gauge_Set_quiet [OF assms(1)])

text \<open>
  Claim C3, as the code has it. The RPC probe never raises: a call that throws and a
  response with an error object each add one to \<open>error_count\<close>. When the two block
  fetches, the peer listing and the file-system query return and no registered alert
  handler throws, \<open>runFullCheck\<close> completes with a report whose \<open>rpc_errors\<close> is the
  number of failed methods; when all three methods fail it is 3.
\<close>

theorem rpc_failures_absorbed:
  assumes "eth_blockNumber (client w) = Inr localBlock"
    and "fetchNetworkBlock w = Inr networkBlock"
    and "admin_peers (client w) = Inr peers"
    and "fs_space w (chaindata_path config) = Inr free"
    and "\<forall>k. \<forall>h \<in> set (registered (alerts s) k). \<forall>a. hcall h a = None"
  shows "error_count (fst (checkRpcAvailability w s)) =
           length (filter (rpc_failed (execute (client w))) methods) \<and>
         (\<exists>report s'. runFullCheck config w s = (Inr report, s') \<and>
            metrics report ''rpc_errors'' =
              Some (of_nat (length (filter (rpc_failed (execute (client w))) methods))) \<and>
            ((\<forall>method \<in> set methods. rpc_failed (execute (client w)) method) \<longrightarrow>
               metrics report ''rpc_errors'' = Some 3))"
proof -
  let ?b = "checkBlockSync w s"
  let ?p = "checkPeerConnections config w (snd ?b)"
  let ?r = "checkRpcAvailability w (snd ?p)"
  let ?d = "checkDiskSpace config w (snd ?r)"
  let ?n = "length (filter (rpc_failed (execute (client w))) methods)"
  have b: "fst ?b = Inr (localBlock, networkBlock)"
    by (rule checkBlockSync_quiet [OF assms(5,1,2)])
  have qb: "\<forall>k. \<forall>h \<in> set (registered (alerts (snd ?b)) k). \<forall>a. hcall h a = None"
    by (simp add: checkBlockSync_registered assms(5))
  from checkPeerConnections_quiet [OF qb assms(3)] obtain stats where p: "fst ?p = Inr stats"
    by blast
  have qr: "\<forall>k. \<forall>h \<in> set (registered (alerts (snd ?r)) k). \<forall>a. hcall h a = None"
    by (simp add: checkRpcAvailability_alerts checkPeerConnections_registered
        checkBlockSync_registered assms(5))
  from checkDiskSpace_quiet [OF qr assms(4)] obtain status where d: "fst ?d = Inr status"
    by blast
  have run: "runFullCheck config w s =
          (Inr (report_of (now w) config (localBlock, networkBlock) stats (fst ?r) status), snd ?d)"
    by (simp add: runFullCheck_eq Let_def b p d)
  have n: "metrics (report_of (now w) config (localBlock, networkBlock) stats (fst ?r) status)
             ''rpc_errors'' = Some (of_nat ?n)"
    by (simp add: report_of_simps checkRpcAvailability_count)
  have "?n = 3" if "\<forall>method \<in> set methods. rpc_failed (execute (client w)) method"
    using that by (simp add: methods_def)
  with run n show ?thesis
    by (auto simp: checkRpcAvailability_count)
qed

theorem rpc_failures_absorbed_witness:
  "error_count (fst (checkRpcAvailability world_rpc_down hc0)) = 3 \<and>
   (\<exists>report s'. runFullCheck config0 world_rpc_down hc0 = (Inr report, s') \<and>
      metrics report ''rpc_errors'' = Some 3)"
proof -
  have ok: "eth_blockNumber (client world_rpc_down) = Inr 100"
    "fetchNetworkBlock world_rpc_down = Inr 120"
    "admin_peers (client world_rpc_down) = Inr [peer_up, peer_up, peer_up, peer_up]"
    "fs_space world_rpc_down (chaindata_path config0) = Inr (50 * 2 ^ 30)"
    by (simp_all add: world_rpc_down_def world0_def client0_def)
  have quiet: "\<forall>k. \<forall>h \<in> set (registered (alerts hc0) k). \<forall>a. hcall h a = None"
    by (simp add: registered_def hc0_def)
  have down: "\<forall>method \<in> set methods. rpc_failed (execute (client world_rpc_down)) method"
    by (simp add: rpc_failed_def world_rpc_down_def world0_def client0_def)
  then have "length (filter (rpc_failed (execute (client world_rpc_down))) methods) = 3"
    by (simp add: methods_def)
  with rpc_failures_absorbed [OF ok quiet] down show ?thesis
    by auto
qed

text \<open>
  The claim as stated, that the peer and disk probes never raise, fails where their
  collaborator call throws: neither probe has a \<^verbatim>\<open>try\<close>, so the exception leaves
  the probe and \<open>runFullCheck\<close>, and the cycle produces no report.
\<close>

theorem probes_never_raise_counterexample:
  "fst (checkPeerConnections config0 world_peers_down hc0) = Inl (Thrown (StdException ''refused'')) \<and>
   fst (runFullCheck config0 world_peers_down hc0) = Inl (Thrown (StdException ''refused'')) \<and>
   fst (checkDiskSpace config0 world_disk_down hc0) =
     Inl (Thrown (StdException ''no such directory'')) \<and>
   fst (runFullCheck config0 world_disk_down hc0) =
     Inl (Thrown (StdException ''no such directory''))"
  by (simp add: probe_defs input_defs)

section \<open>Shutdown\<close>

text \<open>
  The flag is tested at the head of each cycle, and a worker that finds it set starts no
  cycle and makes no call. The join of the worker's thread by a stop operation is a
  matter of threads, outside this sequential model.
\<close>

lemma worker_shutdown:
  "shutdown_flag c \<Longrightarrow> worker config (c # cs) s = (Exited, s)"
  by simp

end
